theory Spec2Isabelle
  imports Complex_Main "HOL-Library.List_Lexorder" "HOL-Library.Char_ord"
begin

section \<open>Numbers\<close>

text \<open>
  The data of the study (heights, years) are finite numbers and are modelled as reals.
  The results of numpy divisions and of the statistics libraries are double values that
  may also be infinite or not-a-number: numpy does not raise on a division by zero, it
  returns \<open>inf\<close> or \<open>nan\<close>. These are \<open>npfloat\<close>. Rounding error of the binary
  representation is not modelled.
\<close>

datatype npfloat = Fin real | PInf | NInf | NaN

text \<open>numpy's \<open>a / b\<close> on two finite doubles.\<close>

definition np_div :: "real \<Rightarrow> real \<Rightarrow> npfloat" where
  "np_div a b =
     (if b \<noteq> 0 then Fin (a / b)
      else if 0 < a then PInf
      else if a < 0 then NInf
      else NaN)"

text \<open>
  The general division of two doubles (signed zeros apart: the divisors of the scripts
  are sums of squares and row counts).
\<close>

fun np_divide :: "npfloat \<Rightarrow> npfloat \<Rightarrow> npfloat" where
  "np_divide (Fin a) (Fin b) = np_div a b"
| "np_divide NaN _ = NaN"
| "np_divide _ NaN = NaN"
| "np_divide (Fin a) _ = Fin 0"
| "np_divide PInf (Fin b) = (if b < 0 then NInf else PInf)"
| "np_divide NInf (Fin b) = (if b < 0 then PInf else NInf)"
| "np_divide _ _ = NaN"

text \<open>\<open>1 - x\<close>.\<close>

fun one_minus :: "npfloat \<Rightarrow> npfloat" where
  "one_minus (Fin x) = Fin (1 - x)"
| "one_minus PInf = NInf"
| "one_minus NInf = PInf"
| "one_minus NaN = NaN"

text \<open>The comparison \<open>a > b\<close>; every comparison with \<open>nan\<close> is false.\<close>

fun np_gt :: "npfloat \<Rightarrow> npfloat \<Rightarrow> bool" where
  "np_gt NaN _ = False"
| "np_gt _ NaN = False"
| "np_gt (Fin a) (Fin b) = (b < a)"
| "np_gt PInf PInf = False"
| "np_gt PInf _ = True"
| "np_gt NInf _ = False"
| "np_gt (Fin a) PInf = False"
| "np_gt (Fin a) NInf = True"

definition np_lt :: "npfloat \<Rightarrow> npfloat \<Rightarrow> bool" where
  "np_lt a b = np_gt b a"

text \<open>\<open>x * n\<close> for a double and a Python int.\<close>

fun np_scale :: "npfloat \<Rightarrow> int \<Rightarrow> npfloat" where
  "np_scale (Fin x) n = Fin (x * of_int n)"
| "np_scale NaN n = NaN"
| "np_scale PInf n = (if 0 < n then PInf else if n < 0 then NInf else NaN)"
| "np_scale NInf n = (if 0 < n then NInf else if n < 0 then PInf else NaN)"

text \<open>Python's \<open>min(a, b)\<close>: \<open>b\<close> only when \<open>b < a\<close>, so a \<open>nan\<close> in front stays.\<close>

definition py_min :: "npfloat \<Rightarrow> npfloat \<Rightarrow> npfloat" where
  "py_min a b = (if np_lt b a then b else a)"

definition isnan :: "npfloat \<Rightarrow> bool" where
  "isnan v = (v = NaN)"

text \<open>
  Python's \<open>round(x, nd)\<close> on a float: the nearest multiple of \<open>10 ^ -nd\<close>, a tie going
  to the even one; \<open>inf\<close> and \<open>nan\<close> are returned as they are.
\<close>

definition py_round :: "nat \<Rightarrow> real \<Rightarrow> real" where
  "py_round nd x =
     (let y = x * 10 ^ nd;
          f = \<lfloor>y\<rfloor>;
          r = y - of_int f
      in of_int (if r < 1 / 2 then f
                 else if 1 / 2 < r then f + 1
                 else if even f then f else f + 1) / 10 ^ nd)"

fun np_round :: "nat \<Rightarrow> npfloat \<Rightarrow> npfloat" where
  "np_round nd (Fin x) = Fin (py_round nd x)"
| "np_round nd v = v"

text \<open>Python's \<open>int(x)\<close> on a finite float truncates towards zero.\<close>

definition py_int :: "real \<Rightarrow> int" where
  "py_int x = (if 0 \<le> x then \<lfloor>x\<rfloor> else \<lceil>x\<rceil>)"

text \<open>
  A value "has at most \<open>nd\<close> decimal places" when it is a whole multiple of
  \<open>10 ^ -nd\<close>; the non-finite values, which \<open>round\<close> passes through, carry no digits.
\<close>

fun decimals :: "nat \<Rightarrow> npfloat \<Rightarrow> bool" where
  "decimals nd (Fin x) = (x * 10 ^ nd \<in> \<int>)"
| "decimals nd v = True"

section \<open>The dataset\<close>

text \<open>
  One row of \<open>all_players.csv\<close> as pandas holds it after \<open>read_csv\<close> and the numeric
  coercion of \<open>main\<close>: every column of the schema is present, and a cell is either a
  value or missing (\<open>None\<close>, pandas' NaN).
\<close>

record observation =
  player_id :: "string option"
  full_name :: "string option"
  country :: "string option"
  category :: "string option"
  birth_year :: "real option"
  age_at_tournament :: "real option"
  height_cm :: "real option"
  height_verified :: "bool option"
  pop_height_birth_cohort :: "real option"
  height_excess :: "real option"
  tournament_id :: "string option"
  format :: "string option"
  tournament_year :: "real option"
  era :: "real option"
  region :: "string option"
  flag :: "string option"

type_synonym dataframe = "observation list"

datatype py_error = KeyError | TypeError | RecursionError

text \<open>
  \<open>isna\<close> of the cell of a named column; \<open>None\<close> when the frame has no column of that
  name (pandas raises KeyError there).
\<close>

definition col_isna :: "string \<Rightarrow> observation \<Rightarrow> bool option" where
  "col_isna c r =
     (if c = ''player_id'' then Some (player_id r = None)
      else if c = ''full_name'' then Some (full_name r = None)
      else if c = ''country'' then Some (country r = None)
      else if c = ''category'' then Some (category r = None)
      else if c = ''birth_year'' then Some (birth_year r = None)
      else if c = ''age_at_tournament'' then Some (age_at_tournament r = None)
      else if c = ''height_cm'' then Some (height_cm r = None)
      else if c = ''height_verified'' then Some (height_verified r = None)
      else if c = ''pop_height_birth_cohort'' then Some (pop_height_birth_cohort r = None)
      else if c = ''height_excess'' then Some (height_excess r = None)
      else if c = ''tournament_id'' then Some (tournament_id r = None)
      else if c = ''format'' then Some (format r = None)
      else if c = ''tournament_year'' then Some (tournament_year r = None)
      else if c = ''era'' then Some (era r = None)
      else if c = ''region'' then Some (region r = None)
      else if c = ''flag'' then Some (flag r = None)
      else None)"

definition known_column :: "string \<Rightarrow> bool" where
  "known_column c = (c \<in> set [''player_id'', ''full_name'', ''country'', ''category'',
     ''birth_year'', ''age_at_tournament'', ''height_cm'', ''height_verified'',
     ''pop_height_birth_cohort'', ''height_excess'', ''tournament_id'', ''format'',
     ''tournament_year'', ''era'', ''region'', ''flag''])"

text \<open>\<open>df.dropna(subset=cols)\<close>: the rows with no missing cell in the named columns.\<close>

definition complete_in :: "string list \<Rightarrow> observation \<Rightarrow> bool" where
  "complete_in cols r = list_all (\<lambda>c. col_isna c r = Some False) cols"

definition dropna :: "string list \<Rightarrow> dataframe \<Rightarrow> py_error + dataframe" where
  "dropna cols df =
     (if list_all known_column cols then Inr (filter (complete_in cols) df)
      else Inl KeyError)"

text \<open>
  The table functions call \<open>dropna\<close> with literal column names of the schema, where it
  cannot raise: \<open>height_year df\<close> is \<open>df.dropna(subset=["height_cm", "tournament_year"])\<close>.
\<close>

definition height_year :: "dataframe \<Rightarrow> dataframe" where
  "height_year df = filter (complete_in [''height_cm'', ''tournament_year'']) df"

text \<open>\<open>df[df["category"] == cat]\<close>; a missing category equals nothing.\<close>

definition of_category :: "string \<Rightarrow> dataframe \<Rightarrow> dataframe" where
  "of_category cat df = filter (\<lambda>r. category r = Some cat) df"

section \<open>The formula of a regression\<close>

text \<open>
  \<open>safe_ols\<close> reads the columns to clean from the formula text:
  \<^verbatim>\<open>[c.strip() for c in formula.replace("~", "+").split("+") if c.strip() and c.strip() != ""]\<close>
\<close>

definition replace_tilde :: "string \<Rightarrow> string" where
  "replace_tilde s = map (\<lambda>c. if c = CHR ''~'' then CHR ''+'' else c) s"

text \<open>\<open>s.split(sep)\<close> for a one-character separator: always at least one piece.\<close>

fun split_on :: "char \<Rightarrow> string \<Rightarrow> string list" where
  "split_on sep [] = [[]]"
| "split_on sep (c # cs) =
     (if c = sep then [] # split_on sep cs
      else (case split_on sep cs of
              [] \<Rightarrow> [[c]]
            | p # ps \<Rightarrow> (c # p) # ps))"

text \<open>
  The characters that \<open>str.strip()\<close> removes, among the code points below 256 that a
  \<open>char\<close> holds: the ASCII white space, U+0085 and U+00A0.
\<close>

definition is_space :: "char \<Rightarrow> bool" where
  "is_space c = (c \<in> set [CHR '' '', CHR 0x09, CHR 0x0A, CHR 0x0B, CHR 0x0C, CHR 0x0D,
                           CHR 0x1C, CHR 0x1D, CHR 0x1E, CHR 0x1F, CHR 0x85, CHR 0xA0])"

definition strip :: "string \<Rightarrow> string" where
  "strip s = rev (dropWhile is_space (rev (dropWhile is_space s)))"

definition formula_columns :: "string \<Rightarrow> string list" where
  "formula_columns formula =
     map strip (filter (\<lambda>c. strip c \<noteq> []) (split_on CHR ''+'' (replace_tilde formula)))"

section \<open>safe\_ols\<close>

text \<open>
  What \<open>smf.ols(formula, data).fit()\<close> of statsmodels returns, as far as the scripts read
  it. The fit itself is the library's: the functions below take it as the parameter
  \<open>ols\<close>, which gives \<open>None\<close> when the library raises.
\<close>

record ols_model =
  nobs :: real
  rsquared :: npfloat
  rsquared_adj :: npfloat
  fvalue :: npfloat
  f_pvalue :: npfloat
  ssr :: real
  params :: "(string \<times> npfloat) list"
  bse :: "string \<Rightarrow> npfloat"
  tvalues :: "string \<Rightarrow> npfloat"
  pvalues :: "string \<Rightarrow> npfloat"
  conf_int :: "string \<Rightarrow> npfloat \<times> npfloat"

type_synonym ols_fitter = "string \<Rightarrow> dataframe \<Rightarrow> ols_model option"

record coefficient =
  estimate :: npfloat
  std_err :: npfloat
  t_value :: npfloat
  p_value :: npfloat
  ci_lower :: npfloat
  ci_upper :: npfloat

record ols_result =
  res_formula :: string
  res_n :: int
  r_squared :: npfloat
  adj_r_squared :: npfloat
  f_statistic :: "npfloat option"
  res_f_pvalue :: "npfloat option"
  coefficients :: "(string \<times> coefficient) list"

definition coefficient_of :: "ols_model \<Rightarrow> string \<Rightarrow> npfloat \<Rightarrow> coefficient" where
  "coefficient_of model param v =
     \<lparr>estimate = np_round 4 v,
      std_err = np_round 4 (bse model param),
      t_value = np_round 4 (tvalues model param),
      p_value = np_round 6 (pvalues model param),
      ci_lower = np_round 4 (fst (conf_int model param)),
      ci_upper = np_round 4 (snd (conf_int model param))\<rparr>"

definition summary :: "string \<Rightarrow> ols_model \<Rightarrow> ols_result" where
  "summary formula model =
     \<lparr>res_formula = formula,
      res_n = py_int (nobs model),
      r_squared = np_round 4 (rsquared model),
      adj_r_squared = np_round 4 (rsquared_adj model),
      f_statistic = (if \<not> isnan (fvalue model) then Some (np_round 4 (fvalue model)) else None),
      res_f_pvalue = (if \<not> isnan (f_pvalue model) then Some (np_round 6 (f_pvalue model)) else None),
      coefficients = map (\<lambda>(param, v). (param, coefficient_of model param v)) (params model)\<rparr>"

text \<open>
  \<open>safe_ols\<close> returns \<open>None\<close> without statsmodels, on any exception (the KeyError of
  \<open>dropna\<close>, an error of the fit) and when fewer than 5 rows are left.
\<close>

definition safe_ols :: "bool \<Rightarrow> ols_fitter \<Rightarrow> string \<Rightarrow> dataframe \<Rightarrow> ols_result option" where
  "safe_ols has_statsmodels ols formula data =
     (if \<not> has_statsmodels then None
      else (case dropna (formula_columns formula) data of
              Inl e \<Rightarrow> None
            | Inr data_clean \<Rightarrow>
                if length data_clean < 5 then None
                else (case ols formula data_clean of
                        None \<Rightarrow> None
                      | Some model \<Rightarrow> Some (summary formula model))))"

section \<open>Tables 8 and 9: the entries of the other fitted models\<close>

text \<open>
  Table 8 fits \<open>height_cm ~ C(category) * C(era)\<close> and writes the rows of statsmodels'
  \<open>anova_lm(model, typ=2)\<close>; the table is the library's, a list of rows by name:
  \<^verbatim>\<open>{str(k): {"sum_sq": round(float(v["sum_sq"]), 4) if not pd.isna(v["sum_sq"]) else None,\<close>
  \<^verbatim>\<open>          "df": round(float(v["df"]), 1), "F": ..., "PR(>F)": round(float(v["PR(>F)"]), 6) ...}}\<close>
\<close>

record anova_lm_row =
  lm_sum_sq :: npfloat
  lm_df :: npfloat
  lm_F :: npfloat
  lm_PR :: npfloat

record anova_entry =
  row_sum_sq :: "npfloat option"
  row_df :: npfloat
  row_F :: "npfloat option"
  row_PR :: "npfloat option"

definition table8_anova_table :: "(string \<times> anova_lm_row) list \<Rightarrow> (string \<times> anova_entry) list" where
  "table8_anova_table anova_table =
     map (\<lambda>(k, v).
            (k, \<lparr>row_sum_sq = (if \<not> isnan (lm_sum_sq v) then Some (np_round 4 (lm_sum_sq v)) else None),
                 row_df = np_round 1 (lm_df v),
                 row_F = (if \<not> isnan (lm_F v) then Some (np_round 4 (lm_F v)) else None),
                 row_PR = (if \<not> isnan (lm_PR v) then Some (np_round 6 (lm_PR v)) else None)\<rparr>))
         anova_table"

text \<open>
  Table 9 fits \<open>MixedLM(y, X, groups).fit(reml=True)\<close>; what the script reads of the
  result, and the entry \<open>model1\<close> it writes. A parameter has a standard error when it is
  in the index of \<open>fit.bse_fe\<close>.
\<close>

record mixedlm_results =
  converged :: bool
  mixed_nobs :: real
  k_re :: real
  llf :: npfloat
  aic :: npfloat
  bic :: npfloat
  fe_params :: "(string \<times> npfloat) list"
  bse_fe :: "string \<rightharpoonup> npfloat"

record fixed_effect =
  fe_estimate :: npfloat
  fe_std_err :: "npfloat option"

record model1_entry =
  m1_converged :: bool
  m1_n :: int
  m1_n_groups :: int
  m1_log_likelihood :: npfloat
  m1_aic :: npfloat
  m1_bic :: npfloat
  fixed_effects :: "(string \<times> fixed_effect) list"

definition table9_model1 :: "mixedlm_results \<Rightarrow> model1_entry" where
  "table9_model1 fit =
     \<lparr>m1_converged = converged fit,
      m1_n = py_int (mixed_nobs fit),
      m1_n_groups = py_int (k_re fit),
      m1_log_likelihood = np_round 4 (llf fit),
      m1_aic = np_round 4 (aic fit),
      m1_bic = np_round 4 (bic fit),
      fixed_effects =
        map (\<lambda>(param, v).
               (param, \<lparr>fe_estimate = np_round 4 v,
                        fe_std_err = (case bse_fe fit param of
                                        Some se \<Rightarrow> Some (np_round 4 se)
                                      | None \<Rightarrow> None)\<rparr>))
            (fe_params fit)\<rparr>"

text \<open>
  \<open>table8_two_way_anova\<close>, as far as the key \<open>anova_table\<close> of its result: the entry
  above when at least 10 rows are complete in height, category and era, statsmodels is
  installed and the fit raises nothing; no key otherwise. The fit and \<open>anova_lm\<close> (on
  the rows with \<open>era\<close> turned into text) are the parameter \<open>anova_lm\<close>.
\<close>

type_synonym anova_fitter = "dataframe \<Rightarrow> (string \<times> anova_lm_row) list option"

definition table8_two_way_anova_fn ::
  "bool \<Rightarrow> anova_fitter \<Rightarrow> dataframe \<Rightarrow> (string \<times> anova_entry) list option" where
  "table8_two_way_anova_fn has_statsmodels anova_lm df =
     (let subset_df = filter (complete_in [''height_cm'', ''category'', ''era'']) df
      in if length subset_df < 10 then None
         else if has_statsmodels
         then (case anova_lm subset_df of
                 None \<Rightarrow> None
               | Some anova_table \<Rightarrow> Some (table8_anova_table anova_table))
         else None)"

text \<open>
  \<open>table9_mixed_effects\<close>: the keys \<open>model1\<close> and \<open>model2\<close> of its result. The two
  fits (\<open>get_dummies\<close>, \<open>MixedLM(...).fit(reml=True)\<close>) are the parameters
  \<open>mixedlm1\<close> and \<open>mixedlm2\<close>, \<open>None\<close> when the library raises; an exception ends
  the function with the keys written so far. \<open>nunique\<close> counts the distinct values
  that are not missing.
\<close>

type_synonym mixed_fitter = "dataframe \<Rightarrow> mixedlm_results option"

record model2_entry =
  m2_converged :: bool
  m2_n :: int
  m2_log_likelihood :: npfloat
  m2_aic :: npfloat
  m2_bic :: npfloat

record mixed_effects =
  model1 :: "model1_entry option"
  model2 :: "model2_entry option"

definition table9_model2 :: "mixedlm_results \<Rightarrow> model2_entry" where
  "table9_model2 fit2 =
     \<lparr>m2_converged = converged fit2,
      m2_n = py_int (mixed_nobs fit2),
      m2_log_likelihood = np_round 4 (llf fit2),
      m2_aic = np_round 4 (aic fit2),
      m2_bic = np_round 4 (bic fit2)\<rparr>"

definition nunique_country :: "dataframe \<Rightarrow> nat" where
  "nunique_country df = length (remdups (List.map_filter country df))"

definition table9_mixed_effects_fn ::
  "bool \<Rightarrow> mixed_fitter \<Rightarrow> mixed_fitter \<Rightarrow> dataframe \<Rightarrow> mixed_effects" where
  "table9_mixed_effects_fn has_statsmodels mixedlm1 mixedlm2 df =
     (if \<not> has_statsmodels then \<lparr>model1 = None, model2 = None\<rparr>
      else
        let subset_df = filter (complete_in [''height_cm'', ''tournament_year'', ''country'']) df
        in if length subset_df < 10 then \<lparr>model1 = None, model2 = None\<rparr>
           else if nunique_country subset_df < 2 then \<lparr>model1 = None, model2 = None\<rparr>
           else
             let subset_m1 =
                   filter (complete_in [''height_cm'', ''tournament_year'', ''category'']) subset_df
             in (case mixedlm1 subset_m1 of
                   None \<Rightarrow> \<lparr>model1 = None, model2 = None\<rparr>
                 | Some fit \<Rightarrow>
                     let subset_m2 =
                           filter (complete_in [''height_cm'', ''tournament_year'',
                                                ''pop_height_birth_cohort'']) subset_df
                     in \<lparr>model1 = Some (table9_model1 fit),
                         model2 =
                           (if 10 \<le> length subset_m2 \<and> 2 \<le> nunique_country subset_m2
                            then (case mixedlm2 subset_m2 of
                                    None \<Rightarrow> None
                                  | Some fit2 \<Rightarrow> Some (table9_model2 fit2))
                            else None)\<rparr>))"

section \<open>Table 3: height against year, per category\<close>

definition CATEGORIES :: "string list" where
  "CATEGORIES = [''WK'', ''BAT'', ''FAST'', ''SPIN'']"

text \<open>
  The results of a table are a Python dict: a key is absent (\<open>None\<close> of the map) or
  bound to a value, and the value that \<open>safe_ols\<close> returned may itself be Python's
  \<open>None\<close>.
\<close>

type_synonym regressions = "string \<rightharpoonup> ols_result option"

text \<open>One turn of the loop over the categories: a slice under 5 rows is printed and left out.\<close>

definition table3_category ::
  "bool \<Rightarrow> ols_fitter \<Rightarrow> dataframe \<Rightarrow> regressions \<Rightarrow> string \<Rightarrow> regressions" where
  "table3_category has_statsmodels ols df results cat =
     (let subset_df = height_year (of_category cat df)
      in if length subset_df < 5 then results
         else results(cat \<mapsto>
                safe_ols has_statsmodels ols ''height_cm ~ tournament_year'' subset_df))"

definition table3_unadjusted_regression ::
  "bool \<Rightarrow> ols_fitter \<Rightarrow> dataframe \<Rightarrow> regressions" where
  "table3_unadjusted_regression has_statsmodels ols df =
     (let results = foldl (table3_category has_statsmodels ols df) Map.empty CATEGORIES;
          subset_all = height_year df
      in if 5 \<le> length subset_all
         then results(''ALL'' \<mapsto> safe_ols has_statsmodels ols ''height_cm ~ tournament_year'' subset_all)
         else results)"

section \<open>Table 7: the breakpoint search\<close>

definition candidate_years :: "int list" where
  "candidate_years = [1996, 1999, 2003, 2007, 2010, 2012]"

text \<open>The row masks \<open>subset["tournament_year"] <= bp\<close> and \<open>> bp\<close>; a missing year is in neither.\<close>

definition year_le :: "int \<Rightarrow> observation \<Rightarrow> bool" where
  "year_le bp r = (case tournament_year r of None \<Rightarrow> False | Some y \<Rightarrow> y \<le> of_int bp)"

definition year_gt :: "int \<Rightarrow> observation \<Rightarrow> bool" where
  "year_gt bp r = (case tournament_year r of None \<Rightarrow> False | Some y \<Rightarrow> of_int bp < y)"

text \<open>
  \<open>stats.f.cdf(x, dfn, dfd)\<close> of scipy is a parameter, as the fit is. The body of the
  \<open>try\<close>: three fits, the Chow statistic and its p-value; \<open>None\<close> when a fit raises.
\<close>

type_synonym f_cdf = "npfloat \<Rightarrow> int \<Rightarrow> int \<Rightarrow> npfloat"

definition chow_f_stat :: "real \<Rightarrow> real \<Rightarrow> int \<Rightarrow> int \<Rightarrow> npfloat" where
  "chow_f_stat rss_full rss_restricted k n =
     np_divide (np_div (rss_full - rss_restricted) (of_int k))
               (np_div rss_restricted (of_int (n - 2 * k)))"

definition chow_test ::
  "ols_fitter \<Rightarrow> f_cdf \<Rightarrow> dataframe \<Rightarrow> dataframe \<Rightarrow> dataframe \<Rightarrow> (npfloat \<times> npfloat) option" where
  "chow_test ols cdf subset_df pre post =
     (case ols ''height_cm ~ tournament_year'' subset_df of
        None \<Rightarrow> None
      | Some model_full \<Rightarrow>
     (case ols ''height_cm ~ tournament_year'' pre of
        None \<Rightarrow> None
      | Some model_pre \<Rightarrow>
     (case ols ''height_cm ~ tournament_year'' post of
        None \<Rightarrow> None
      | Some model_post \<Rightarrow>
          let rss_full = ssr model_full;
              rss_restricted = ssr model_pre + ssr model_post;
              k = 2;
              n = int (length subset_df);
              f_stat = chow_f_stat rss_full rss_restricted k n;
              p_val = one_minus (cdf f_stat k (n - 2 * k))
          in Some (f_stat, p_val))))"

text \<open>The state of the search: \<open>best_bp\<close>, \<open>best_f\<close>, \<open>best_p\<close>.\<close>

type_synonym best = "int option \<times> npfloat \<times> npfloat"

definition best_init :: best where
  "best_init = (None, Fin (- 1), Fin 1)"

definition try_candidate :: "ols_fitter \<Rightarrow> f_cdf \<Rightarrow> dataframe \<Rightarrow> best \<Rightarrow> int \<Rightarrow> best" where
  "try_candidate ols cdf subset_df b bp =
     (let pre = filter (year_le bp) subset_df;
          post = filter (year_gt bp) subset_df
      in if length pre < 5 \<or> length post < 5 then b
         else (case chow_test ols cdf subset_df pre post of
                 None \<Rightarrow> b
               | Some (f_stat, p_val) \<Rightarrow>
                   if np_gt f_stat (fst (snd b)) then (Some bp, f_stat, p_val) else b))"

definition search_breakpoint :: "ols_fitter \<Rightarrow> f_cdf \<Rightarrow> dataframe \<Rightarrow> int list \<Rightarrow> best" where
  "search_breakpoint ols cdf subset_df years = foldl (try_candidate ols cdf subset_df) best_init years"

text \<open>
  The entry of one slice. \<open>significant\<close> is the numpy comparison \<open>best_p < 0.05\<close>. The
  two slope keys are set only when the segment's \<open>safe_ols\<close> gave a result, to the
  estimate of \<open>tournament_year\<close> or to \<open>None\<close> when the fit has no such parameter.
\<close>

record breakpoint_entry =
  best_breakpoint :: int
  bp_f_statistic :: npfloat
  bp_p_value :: npfloat
  significant :: bool
  pre_slope :: "npfloat option option"
  post_slope :: "npfloat option option"

definition slope_of :: "ols_result option \<Rightarrow> npfloat option option" where
  "slope_of res =
     (case res of
        None \<Rightarrow> None
      | Some r \<Rightarrow> Some (map_option estimate (map_of (coefficients r) ''tournament_year'')))"

type_synonym breakpoints = "string \<rightharpoonup> breakpoint_entry"

definition table7_slice :: "string \<Rightarrow> dataframe \<Rightarrow> dataframe" where
  "table7_slice cat df =
     (if cat = ''ALL'' then height_year df else height_year (of_category cat df))"

text \<open>
  After the loop: \<open>if best_bp:\<close> (a year found, and not 0) the entry is built, with the
  two segments fitted again by \<open>safe_ols\<close>. Table 7 has returned before this point
  when statsmodels is missing, so \<open>HAS_STATSMODELS\<close> is true in these calls.
\<close>

definition slice_entry :: "ols_fitter \<Rightarrow> f_cdf \<Rightarrow> dataframe \<Rightarrow> breakpoint_entry option" where
  "slice_entry ols cdf subset_df =
     (case search_breakpoint ols cdf subset_df candidate_years of
        (None, best_f, best_p) \<Rightarrow> None
      | (Some best_bp, best_f, best_p) \<Rightarrow>
          if best_bp = 0 then None
          else
            let pre = filter (year_le best_bp) subset_df;
                post = filter (year_gt best_bp) subset_df;
                res_pre = safe_ols True ols ''height_cm ~ tournament_year'' pre;
                res_post = safe_ols True ols ''height_cm ~ tournament_year'' post
            in Some \<lparr>best_breakpoint = best_bp,
                      bp_f_statistic = np_round 4 best_f,
                      bp_p_value = np_round 6 best_p,
                      significant = np_lt best_p (Fin 0.05),
                      pre_slope = slope_of res_pre,
                      post_slope = slope_of res_post\<rparr>)"

definition table7_category ::
  "ols_fitter \<Rightarrow> f_cdf \<Rightarrow> dataframe \<Rightarrow> breakpoints \<Rightarrow> string \<Rightarrow> breakpoints" where
  "table7_category ols cdf df results cat =
     (let subset_df = table7_slice cat df
      in if length subset_df < 10 then results
         else (case slice_entry ols cdf subset_df of
                 None \<Rightarrow> results
               | Some entry \<Rightarrow> results(cat \<mapsto> entry)))"

definition table7_breakpoint :: "bool \<Rightarrow> ols_fitter \<Rightarrow> f_cdf \<Rightarrow> dataframe \<Rightarrow> breakpoints" where
  "table7_breakpoint has_statsmodels ols cdf df =
     (if \<not> has_statsmodels then Map.empty
      else foldl (table7_category ols cdf df) Map.empty [''BAT'', ''FAST'', ''ALL''])"

text \<open>
  For the statements about the search: a candidate year is valid for a slice when both
  segments have at least 5 rows, and a valid candidate whose three fits return has a
  Chow statistic and a p-value.
\<close>

definition valid_candidate :: "dataframe \<Rightarrow> int \<Rightarrow> bool" where
  "valid_candidate subset_df bp =
     (5 \<le> length (filter (year_le bp) subset_df) \<and> 5 \<le> length (filter (year_gt bp) subset_df))"

definition candidate_f ::
  "ols_fitter \<Rightarrow> f_cdf \<Rightarrow> dataframe \<Rightarrow> int \<Rightarrow> (npfloat \<times> npfloat) option" where
  "candidate_f ols cdf subset_df bp =
     (if valid_candidate subset_df bp
      then chow_test ols cdf subset_df (filter (year_le bp) subset_df)
             (filter (year_gt bp) subset_df)
      else None)"

text \<open>
  What holds of the state of the search after the candidates \<open>years\<close>: nothing was
  scored, or the best is a scored candidate that no scored candidate beats and that
  beats every scored candidate before it.
\<close>

definition search_inv :: "ols_fitter \<Rightarrow> f_cdf \<Rightarrow> dataframe \<Rightarrow> int list \<Rightarrow> best \<Rightarrow> bool" where
  "search_inv ols cdf subset_df years b =
     (case b of
        (None, bf, bpv) \<Rightarrow>
          bf = Fin (- 1) \<and> bpv = Fin 1 \<and> (\<forall>bp \<in> set years. candidate_f ols cdf subset_df bp = None)
      | (Some bp, bf, bpv) \<Rightarrow>
          candidate_f ols cdf subset_df bp = Some (bf, bpv) \<and>
          (\<forall>bp' \<in> set years. \<forall>F' p'. candidate_f ols cdf subset_df bp' = Some (F', p')
              \<longrightarrow> \<not> np_gt F' bf) \<and>
          (\<exists>earlier later. years = earlier @ bp # later \<and>
              (\<forall>bp' \<in> set earlier. \<forall>F' p'. candidate_f ols cdf subset_df bp' = Some (F', p')
                  \<longrightarrow> np_gt bf F')))"

text \<open>
  \<open>fig6_breakpoint\<close> of \<open>generate_figures.py\<close> repeats the computation for its plot:
  the statistic in the body of its \<open>try\<close>, and the p-value of a new best.
\<close>

definition fig6_f_stat :: "ols_fitter \<Rightarrow> dataframe \<Rightarrow> dataframe \<Rightarrow> dataframe \<Rightarrow> npfloat option" where
  "fig6_f_stat ols subset_df pre post =
     (case ols ''height_cm ~ tournament_year'' subset_df of
        None \<Rightarrow> None
      | Some model_full \<Rightarrow>
     (case ols ''height_cm ~ tournament_year'' pre of
        None \<Rightarrow> None
      | Some model_pre \<Rightarrow>
     (case ols ''height_cm ~ tournament_year'' post of
        None \<Rightarrow> None
      | Some model_post \<Rightarrow>
          let rss_full = ssr model_full;
              rss_rest = ssr model_pre + ssr model_post;
              k = 2;
              n = int (length subset_df)
          in Some (np_divide (np_div (rss_full - rss_rest) (of_int k))
                             (np_div rss_rest (of_int (n - 2 * k)))))))"

definition fig6_best_p :: "f_cdf \<Rightarrow> npfloat \<Rightarrow> dataframe \<Rightarrow> npfloat" where
  "fig6_best_p cdf f_stat subset_df =
     (let k = 2; n = int (length subset_df) in one_minus (cdf f_stat k (n - 2 * k)))"

section \<open>Table 6: pairwise comparisons of regions\<close>

text \<open>
  \<open>stats.f_oneway\<close> and \<open>stats.ttest_ind(g1, g2, equal_var=False)\<close> of scipy are
  parameters; both return a statistic and a p-value. The per-region descriptive table
  (\<open>groupby(...).agg(...).round(2).to_dict()\<close>) is pandas' and is the parameter
  \<open>describe\<close>.
\<close>

type_synonym two_sample_test = "real list \<Rightarrow> real list \<Rightarrow> npfloat \<times> npfloat"

text \<open>The column \<open>height_cm\<close> of a frame whose rows all have a height.\<close>

definition heights :: "dataframe \<Rightarrow> real list" where
  "heights df = List.map_filter height_cm df"

definition of_region :: "string \<Rightarrow> dataframe \<Rightarrow> dataframe" where
  "of_region r df = filter (\<lambda>x. region x = Some r) df"

text \<open>\<open>for i, r1 in enumerate(rs): for r2 in rs[i + 1:]\<close>.\<close>

fun pairs :: "'a list \<Rightarrow> ('a \<times> 'a) list" where
  "pairs [] = []"
| "pairs (x # xs) = map (Pair x) xs @ pairs xs"

record pairwise =
  pw_pair :: string
  pw_t :: npfloat
  pw_p_adj :: npfloat

definition bonferroni :: "npfloat \<Rightarrow> int \<Rightarrow> npfloat" where
  "bonferroni p n_comparisons = py_min (np_scale p n_comparisons) (Fin 1)"

definition pairwise_tests :: "two_sample_test \<Rightarrow> dataframe \<Rightarrow> string list \<Rightarrow> pairwise list" where
  "pairwise_tests ttest_ind sub valid_regions =
     (let n_comparisons = int (length valid_regions) * (int (length valid_regions) - 1) div 2
      in map (\<lambda>(r1, r2).
               let g1 = heights (of_region r1 sub);
                   g2 = heights (of_region r2 sub);
                   (t, p) = ttest_ind g1 g2;
                   p_adj = bonferroni p n_comparisons
               in \<lparr>pw_pair = r1 @ '' vs '' @ r2,
                   pw_t = np_round 4 t,
                   pw_p_adj = np_round 6 p_adj\<rparr>)
             (pairs valid_regions))"

record overall_anova =
  anova_f_statistic :: npfloat
  anova_p_value :: npfloat
  anova_regions :: "string list"

record 'd regional =
  overall :: "overall_anova option"
  region_descriptive :: "'d option"
  pairwise_results :: "pairwise list option"

definition valid_regions_of :: "dataframe \<Rightarrow> string list" where
  "valid_regions_of sub =
     filter (\<lambda>r. 2 \<le> length (of_region r sub)) (sort (remdups (List.map_filter region sub)))"

definition table6_regional_anova ::
  "bool \<Rightarrow> (real list list \<Rightarrow> npfloat \<times> npfloat) \<Rightarrow> two_sample_test \<Rightarrow> (dataframe \<Rightarrow> 'd)
     \<Rightarrow> dataframe \<Rightarrow> 'd regional" where
  "table6_regional_anova has_pingouin f_oneway ttest_ind describe df =
     (let sub = filter (complete_in [''height_cm'', ''region'']) df;
          regions = sort (remdups (List.map_filter region sub));
          groups = map (\<lambda>r. heights (of_region r sub))
                     (filter (\<lambda>r. 2 \<le> length (of_region r sub)) regions);
          valid_regions = filter (\<lambda>r. 2 \<le> length (of_region r sub)) regions
      in if 2 \<le> length groups
         then (let (f_stat, p) = f_oneway groups
               in \<lparr>overall = Some \<lparr>anova_f_statistic = np_round 4 f_stat,
                                    anova_p_value = np_round 6 p,
                                    anova_regions = valid_regions\<rparr>,
                   region_descriptive = Some (describe sub),
                   pairwise_results =
                     (if has_pingouin then None
                      else Some (pairwise_tests ttest_ind sub valid_regions))\<rparr>)
         else \<lparr>overall = None, region_descriptive = None, pairwise_results = None\<rparr>)"

section \<open>Table 10, part 6: the effect size of FAST against BAT\<close>

text \<open>
  \<open>Series.mean()\<close> and \<open>Series.std()\<close> are pandas' and are parameters: on at least 3
  heights they give finite doubles, and what they give is not computed here. The
  pooled standard deviation and the effect size are the script's own lines:
  \<^verbatim>\<open>pooled_sd = np.sqrt((fast.std() ** 2 + bat.std() ** 2) / 2)\<close>,
  \<^verbatim>\<open>d = diff / pooled_sd if pooled_sd > 0 else 0\<close>,
  the division being numpy's.
\<close>

type_synonym series_stat = "real list \<Rightarrow> real"

text \<open>\<open>df[df["category"] == cat]["height_cm"].dropna()\<close>.\<close>

definition heights_of :: "string \<Rightarrow> dataframe \<Rightarrow> real list" where
  "heights_of cat df = List.map_filter height_cm (of_category cat df)"

definition pooled_sd :: "real \<Rightarrow> real \<Rightarrow> real" where
  "pooled_sd fast_std bat_std = sqrt ((fast_std\<^sup>2 + bat_std\<^sup>2) / 2)"

definition cohens_d :: "real \<Rightarrow> real \<Rightarrow> npfloat" where
  "cohens_d diff pooled = (if 0 < pooled then np_div diff pooled else Fin 0)"

record effect_size =
  fast_mean :: real
  bat_mean :: real
  difference :: real
  es_cohens_d :: npfloat
  es_t_statistic :: npfloat
  es_p_value :: npfloat

definition table10_fast_vs_bat ::
  "series_stat \<Rightarrow> series_stat \<Rightarrow> two_sample_test \<Rightarrow> dataframe \<Rightarrow> effect_size option" where
  "table10_fast_vs_bat mean std ttest_ind df =
     (let fast = heights_of ''FAST'' df;
          bat = heights_of ''BAT'' df
      in if 3 \<le> length fast \<and> 3 \<le> length bat
         then (let diff = mean fast - mean bat;
                   pooled = pooled_sd (std fast) (std bat);
                   d = cohens_d diff pooled;
                   (t, p) = ttest_ind fast bat
               in Some \<lparr>fast_mean = py_round 2 (mean fast),
                         bat_mean = py_round 2 (mean bat),
                         difference = py_round 2 diff,
                         es_cohens_d = np_round 4 d,
                         es_t_statistic = np_round 4 t,
                         es_p_value = np_round 6 p\<rparr>)
         else None)"

text \<open>
  Part 5 of table 10, the comparison of the formats from 2007 on. Its effect size is
  divided without a guard:
  \<^verbatim>\<open>d = (odi_heights.mean() - t20_heights.mean()) / np.sqrt((odi_heights.std() ** 2 + t20_heights.std() ** 2) / 2)\<close>.
\<close>

record format_comparison =
  odi_mean :: real
  odi_n :: int
  t20_mean :: real
  t20_n :: int
  fc_t_statistic :: npfloat
  fc_p_value :: npfloat
  fc_cohens_d :: npfloat

definition of_format :: "string \<Rightarrow> dataframe \<Rightarrow> dataframe" where
  "of_format f df = filter (\<lambda>r. format r = Some f) df"

definition table10_format_comparison ::
  "series_stat \<Rightarrow> series_stat \<Rightarrow> two_sample_test \<Rightarrow> dataframe \<Rightarrow> format_comparison option" where
  "table10_format_comparison mean std ttest_ind df =
     (let recent = filter (complete_in [''height_cm''])
                     (filter (\<lambda>r. case tournament_year r of None \<Rightarrow> False | Some y \<Rightarrow> 2007 \<le> y) df)
      in if 5 \<le> length recent \<and> 2 \<le> length (remdups (List.map_filter format recent))
         then (let odi_heights = heights (of_format ''ODI'' recent);
                   t20_heights = heights (of_format ''T20'' recent)
               in if 3 \<le> length odi_heights \<and> 3 \<le> length t20_heights
                  then (let (t, p) = ttest_ind odi_heights t20_heights;
                            d = np_div (mean odi_heights - mean t20_heights)
                                  (sqrt (((std odi_heights)\<^sup>2 + (std t20_heights)\<^sup>2) / 2))
                        in Some \<lparr>odi_mean = py_round 2 (mean odi_heights),
                                  odi_n = int (length odi_heights),
                                  t20_mean = py_round 2 (mean t20_heights),
                                  t20_n = int (length t20_heights),
                                  fc_t_statistic = np_round 4 t,
                                  fc_p_value = np_round 6 p,
                                  fc_cohens_d = np_round 4 d\<rparr>)
                  else None)
         else None)"

section \<open>The results document and its serialization\<close>

text \<open>
  The values a results document holds: Python's own, which \<open>json\<close> writes, and the
  wrapper types \<open>convert_numpy\<close> names. A \<open>numpy.float64\<close> is a subclass of
  \<open>float\<close>: \<open>json\<close> writes it as it writes a float, without asking the hook;
  \<open>NpFloating\<close> stands for the other numpy floats, which it does not write. The keys
  of the dicts modelled here are strings.
\<close>

datatype pyval =
    PyNone
  | PyBool bool
  | PyInt int
  | PyFloat npfloat
  | PyStr string
  | PyList "pyval list"
  | PyDict "(string \<times> pyval) list"
  | NpInteger int
  | NpFloat64 npfloat
  | NpFloating npfloat
  | NpArray "pyval list"
  | PdTimestamp string
  | NpBool bool

datatype json =
    JNull
  | JBool bool
  | JInt int
  | JNumber npfloat
  | JString string
  | JArray "json list"
  | JObject "(string \<times> json) list"

fun convert_numpy :: "pyval \<Rightarrow> pyval" where
  "convert_numpy (NpInteger i) = PyInt i"
| "convert_numpy (NpFloat64 x) = PyFloat x"
| "convert_numpy (NpFloating x) = PyFloat x"
| "convert_numpy (NpArray xs) = PyList xs"
| "convert_numpy (PdTimestamp s) = PyStr s"
| "convert_numpy (NpBool b) = PyBool b"
| "convert_numpy obj = obj"

text \<open>
  \<open>NumpyEncoder.default\<close>: the converted object when \<open>convert_numpy\<close> made a new one,
  otherwise the base class's \<open>default\<close>, which raises TypeError.
\<close>

definition NumpyEncoder_default :: "pyval \<Rightarrow> py_error + pyval" where
  "NumpyEncoder_default obj =
     (let converted = convert_numpy obj
      in if converted \<noteq> obj then Inr converted else Inl TypeError)"

text \<open>
  The builtin \<open>str\<close> on the wrapper types: \<open>str(numpy.bool_(True))\<close> is \<open>'True'\<close>, the
  text of a timestamp is the timestamp's; how numbers and arrays print is left to the
  parameter \<open>render\<close>.
\<close>

definition py_str :: "(pyval \<Rightarrow> string) \<Rightarrow> pyval \<Rightarrow> py_error + pyval" where
  "py_str render obj =
     Inr (PyStr (case obj of
                   NpBool b \<Rightarrow> (if b then ''True'' else ''False'')
                 | PdTimestamp s \<Rightarrow> s
                 | PyStr s \<Rightarrow> s
                 | _ \<Rightarrow> render obj))"

text \<open>
  The encoder of the standard library, as a tree: what it writes itself, and for any
  other object the result of the hook \<open>default\<close>, encoded in turn. \<open>depth\<close> is the
  interpreter's recursion limit.
\<close>

fun encode :: "nat \<Rightarrow> (pyval \<Rightarrow> py_error + pyval) \<Rightarrow> pyval \<Rightarrow> py_error + json"
and encode_list :: "nat \<Rightarrow> (pyval \<Rightarrow> py_error + pyval) \<Rightarrow> pyval list \<Rightarrow> py_error + json list"
and encode_items ::
  "nat \<Rightarrow> (pyval \<Rightarrow> py_error + pyval) \<Rightarrow> (string \<times> pyval) list
     \<Rightarrow> py_error + (string \<times> json) list"
where
  "encode depth hook PyNone = Inr JNull"
| "encode depth hook (PyBool b) = Inr (JBool b)"
| "encode depth hook (PyInt i) = Inr (JInt i)"
| "encode depth hook (PyFloat x) = Inr (JNumber x)"
| "encode depth hook (NpFloat64 x) = Inr (JNumber x)"
| "encode depth hook (PyStr s) = Inr (JString s)"
| "encode depth hook (PyList xs) = map_sum id JArray (encode_list depth hook xs)"
| "encode depth hook (PyDict kvs) = map_sum id JObject (encode_items depth hook kvs)"
| "encode 0 hook obj = Inl RecursionError"
| "encode (Suc depth) hook obj =
     (case hook obj of Inl e \<Rightarrow> Inl e | Inr obj' \<Rightarrow> encode depth hook obj')"
| "encode_list depth hook [] = Inr []"
| "encode_list depth hook (v # vs) =
     (case encode depth hook v of
        Inl e \<Rightarrow> Inl e
      | Inr j \<Rightarrow>
          (case encode_list depth hook vs of Inl e \<Rightarrow> Inl e | Inr js \<Rightarrow> Inr (j # js)))"
| "encode_items depth hook [] = Inr []"
| "encode_items depth hook ((k, v) # kvs) =
     (case encode depth hook v of
        Inl e \<Rightarrow> Inl e
      | Inr j \<Rightarrow>
          (case encode_items depth hook kvs of
             Inl e \<Rightarrow> Inl e
           | Inr js \<Rightarrow> Inr ((k, j) # js)))"

text \<open>\<open>json.load\<close> on the tree.\<close>

fun decode :: "json \<Rightarrow> pyval" where
  "decode JNull = PyNone"
| "decode (JBool b) = PyBool b"
| "decode (JInt i) = PyInt i"
| "decode (JNumber x) = PyFloat x"
| "decode (JString s) = PyStr s"
| "decode (JArray js) = PyList (map decode js)"
| "decode (JObject kvs) = PyDict (map (\<lambda>(k, j). (k, decode j)) kvs)"

text \<open>
  \<open>JSONEncoder.__init__\<close> ends with \<open>if default is not None: self.default = default\<close>:
  a \<open>default\<close> passed by keyword becomes an attribute of the instance and is found
  before the method of the class.
\<close>

definition encoder_hook ::
  "(pyval \<Rightarrow> py_error + pyval) \<Rightarrow> (pyval \<Rightarrow> py_error + pyval) option
     \<Rightarrow> (pyval \<Rightarrow> py_error + pyval)" where
  "encoder_hook cls_default default_kw =
     (case default_kw of None \<Rightarrow> cls_default | Some f \<Rightarrow> f)"

text \<open>\<open>json.dump(all_results, fh, indent=2, cls=NumpyEncoder, default=str)\<close>.\<close>

definition json_dump :: "nat \<Rightarrow> (pyval \<Rightarrow> string) \<Rightarrow> pyval \<Rightarrow> py_error + json" where
  "json_dump depth render all_results =
     encode depth (encoder_hook NumpyEncoder_default (Some (py_str render))) all_results"

definition roundtrip :: "nat \<Rightarrow> (pyval \<Rightarrow> string) \<Rightarrow> pyval \<Rightarrow> py_error + pyval" where
  "roundtrip depth render all_results = map_sum id decode (json_dump depth render all_results)"

text \<open>The entries of table 7 as the Python dicts the function builds.\<close>

definition slope_items :: "string \<Rightarrow> npfloat option option \<Rightarrow> (string \<times> pyval) list" where
  "slope_items key v =
     (case v of
        None \<Rightarrow> []
      | Some None \<Rightarrow> [(key, PyNone)]
      | Some (Some x) \<Rightarrow> [(key, PyFloat x)])"

definition entry_py :: "breakpoint_entry \<Rightarrow> pyval" where
  "entry_py e =
     PyDict ([(''best_breakpoint'', PyInt (best_breakpoint e)),
              (''f_statistic'', PyFloat (bp_f_statistic e)),
              (''p_value'', PyFloat (bp_p_value e)),
              (''significant'', NpBool (significant e))]
             @ slope_items ''pre_slope'' (pre_slope e)
             @ slope_items ''post_slope'' (post_slope e))"

definition breakpoints_py :: "breakpoints \<Rightarrow> pyval" where
  "breakpoints_py results =
     PyDict (List.map_filter (\<lambda>cat. map_option (\<lambda>e. (cat, entry_py e)) (results cat))
                             [''BAT'', ''FAST'', ''ALL''])"

section \<open>main\<close>

text \<open>
  The nine table functions, each giving its part of the document. \<open>main\<close> is modelled
  over any nine, with the list of those it has called; the input is the frame read from
  \<open>all_players.csv\<close> (after \<open>read_csv\<close> and \<open>to_numeric\<close>, which are pandas'), or
  \<open>None\<close> when the file does not exist. \<open>sys.exit(1)\<close> is the exit status 1; a run
  that reaches the end saves the document with \<open>json.dump\<close>.
\<close>

record analyses =
  table2_descriptive :: "dataframe \<Rightarrow> pyval"
  table3_unadjusted :: "dataframe \<Rightarrow> pyval"
  table4_adjusted :: "dataframe \<Rightarrow> pyval"
  table5_country :: "dataframe \<Rightarrow> pyval"
  table6_regional :: "dataframe \<Rightarrow> pyval"
  table7_breakpoints :: "dataframe \<Rightarrow> pyval"
  table8_two_way_anova :: "dataframe \<Rightarrow> pyval"
  table9_mixed_effects :: "dataframe \<Rightarrow> pyval"
  table10_sensitivity :: "dataframe \<Rightarrow> pyval"

record run =
  called :: "string list"
  exit_status :: "int option"
  saved :: "(py_error + json) option"

definition main :: "nat \<Rightarrow> (pyval \<Rightarrow> string) \<Rightarrow> analyses \<Rightarrow> dataframe option \<Rightarrow> run" where
  "main depth render a csv =
     (case csv of
        None \<Rightarrow> \<lparr>called = [], exit_status = Some 1, saved = None\<rparr>
      | Some df \<Rightarrow>
          let df_valid = filter (\<lambda>r. height_cm r \<noteq> None) df
          in if length df_valid = 0
             then \<lparr>called = [], exit_status = Some 1, saved = None\<rparr>
             else
               let all_results = PyDict
                     [(''table2_descriptive'', table2_descriptive a df_valid),
                      (''table3_unadjusted'', table3_unadjusted a df_valid),
                      (''table4_adjusted'', table4_adjusted a df_valid),
                      (''table5_country'', table5_country a df_valid),
                      (''table6_regional'', table6_regional a df_valid),
                      (''table7_breakpoint'', table7_breakpoints a df_valid),
                      (''table8_two_way_anova'', table8_two_way_anova a df_valid),
                      (''table9_mixed_effects'', table9_mixed_effects a df_valid),
                      (''table10_sensitivity'', table10_sensitivity a df_valid)]
               in \<lparr>called = [''table2_descriptive'', ''table3_unadjusted_regression'',
                             ''table4_adjusted_regression'', ''table5_country_regression'',
                             ''table6_regional_anova'', ''table7_breakpoint'',
                             ''table8_two_way_anova'', ''table9_mixed_effects'',
                             ''table10_sensitivity''],
                   exit_status = None,
                   saved = Some (json_dump depth render all_results)\<rparr>)"

section \<open>Frames as objects\<close>












section \<open>Sample data\<close>

text \<open>Concrete rows, fits and library results on which the theorems below are run.\<close>

definition player :: "string \<Rightarrow> string \<Rightarrow> real \<Rightarrow> real \<Rightarrow> observation" where
  "player cat ctry yr h =
     \<lparr>player_id = Some ''p'', full_name = Some ''n'', country = Some ctry, category = Some cat,
      birth_year = None, age_at_tournament = None, height_cm = Some h,
      height_verified = Some True, pop_height_birth_cohort = None, height_excess = None,
      tournament_id = Some ''t'', format = Some ''ODI'', tournament_year = Some yr,
      era = Some 1, region = Some ''Asia'', flag = None\<rparr>"

definition five_bat :: dataframe where
  "five_bat = [player ''BAT'' ''IND'' 1996 170, player ''BAT'' ''IND'' 1999 172,
               player ''BAT'' ''IND'' 2003 174, player ''BAT'' ''IND'' 2007 176,
               player ''BAT'' ''IND'' 2011 178]"

definition four_bat :: dataframe where
  "four_bat = [player ''BAT'' ''IND'' 1996 170, player ''BAT'' ''IND'' 1999 172,
               player ''BAT'' ''IND'' 2003 174, player ''BAT'' ''IND'' 2007 176]"

definition demo_model :: ols_model where
  "demo_model =
     \<lparr>nobs = 5, rsquared = Fin 0.98763, rsquared_adj = Fin 0.5, fvalue = NaN,
      f_pvalue = Fin 0.00012345, ssr = 3,
      params = [(''Intercept'', Fin (- 891.23456)), (''tournament_year'', Fin 0.53337)],
      bse = (\<lambda>_. Fin 0.00017), tvalues = (\<lambda>_. PInf), pvalues = (\<lambda>_. Fin 0.0000004),
      conf_int = (\<lambda>_. (Fin 0.1, Fin 0.9))\<rparr>"

definition demo_ols :: ols_fitter where
  "demo_ols formula data = Some demo_model"

text \<open>
  A stand-in for the fitter: the least-squares line through the points (year, height)
  and its residual sum of squares; the statistics of inference are not computed.
\<close>

definition points :: "dataframe \<Rightarrow> (real \<times> real) list" where
  "points data = List.map_filter (\<lambda>r. case (tournament_year r, height_cm r) of
       (Some x, Some y) \<Rightarrow> Some (x, y) | _ \<Rightarrow> None) data"

definition least_squares :: ols_fitter where
  "least_squares formula data =
     (let pts = points data;
          n = real (length pts);
          mx = sum_list (map fst pts) / n;
          my = sum_list (map snd pts) / n;
          sxx = sum_list (map (\<lambda>(x, y). (x - mx) * (x - mx)) pts);
          sxy = sum_list (map (\<lambda>(x, y). (x - mx) * (y - my)) pts);
          syy = sum_list (map (\<lambda>(x, y). (y - my) * (y - my)) pts);
          slope = (if sxx = 0 then 0 else sxy / sxx)
      in Some \<lparr>nobs = n, rsquared = NaN, rsquared_adj = NaN, fvalue = NaN, f_pvalue = NaN,
               ssr = syy - slope * sxy,
               params = [(''Intercept'', Fin (my - slope * mx)), (''tournament_year'', Fin slope)],
               bse = (\<lambda>_. NaN), tvalues = (\<lambda>_. NaN), pvalues = (\<lambda>_. NaN),
               conf_int = (\<lambda>_. (NaN, NaN))\<rparr>)"

text \<open>
  The distribution function of F with 2 and an even number \<open>dfd\<close> of degrees of
  freedom: \<open>1 - (1 + 2 x / dfd) ^ (- dfd / 2)\<close>.
\<close>

definition f_cdf_2 :: f_cdf where
  "f_cdf_2 x dfn dfd =
     (case x of
        Fin v \<Rightarrow> Fin (1 - 1 / (1 + 2 * v / of_int dfd) ^ (nat dfd div 2))
      | PInf \<Rightarrow> Fin 1
      | NInf \<Rightarrow> Fin 0
      | NaN \<Rightarrow> NaN)"

definition twelve_bat :: dataframe where
  "twelve_bat =
     [player ''BAT'' ''IND'' 1992 170, player ''BAT'' ''IND'' 1996 171,
      player ''BAT'' ''IND'' 1996 169, player ''BAT'' ''IND'' 1999 170,
      player ''BAT'' ''IND'' 1999 170, player ''BAT'' ''IND'' 2003 174,
      player ''BAT'' ''IND'' 2003 176, player ''BAT'' ''IND'' 2007 178,
      player ''BAT'' ''IND'' 2007 180, player ''BAT'' ''IND'' 2011 182,
      player ''BAT'' ''IND'' 2011 184, player ''BAT'' ''IND'' 2015 186]"

text \<open>
  Stand-ins for pandas' \<open>Series.mean\<close> and \<open>Series.std\<close> (\<open>ddof = 1\<close>) in exact
  arithmetic. They are applied below to whole-number heights only, where the double
  arithmetic of pandas is exact as well.
\<close>

definition series_mean :: series_stat where
  "series_mean xs = sum_list xs / real (length xs)"

definition series_var :: series_stat where
  "series_var xs = sum_list (map (\<lambda>x. (x - series_mean xs)\<^sup>2) xs) / (real (length xs) - 1)"

definition series_std :: series_stat where
  "series_std xs = sqrt (series_var xs)"

text \<open>
  Two regions of two rows each. In both frames the two groups have the same sample
  variance, so that Welch's test has exactly 2 degrees of freedom and the one-way
  analysis of variance has 1 and 2; for 2 degrees of freedom the distribution of
  Student's t is elementary, the two-sided p-value of \<open>t\<close> being
  \<open>1 - sqrt (t\<^sup>2 / (2 + t\<^sup>2))\<close>, which is also the p-value of \<open>F = t\<^sup>2\<close> on 1 and 2 degrees
  of freedom. The two stand-ins below are scipy's \<open>ttest_ind(equal_var=False)\<close> and
  \<open>f_oneway\<close> on such groups.
\<close>

definition two_regions :: dataframe where
  "two_regions =
     [player ''BAT'' ''IND'' 2003 170, player ''BAT'' ''IND'' 2007 176,
      (player ''BAT'' ''AUS'' 2003 178)\<lparr>region := Some ''Oceania''\<rparr>,
      (player ''BAT'' ''AUS'' 2007 184)\<lparr>region := Some ''Oceania''\<rparr>]"

definition far_regions :: dataframe where
  "far_regions =
     [player ''BAT'' ''IND'' 2003 160, player ''BAT'' ''IND'' 2007 180,
      (player ''BAT'' ''AUS'' 2003 181)\<lparr>region := Some ''Oceania''\<rparr>,
      (player ''BAT'' ''AUS'' 2007 201)\<lparr>region := Some ''Oceania''\<rparr>]"

definition welch_two_pairs :: two_sample_test where
  "welch_two_pairs g1 g2 =
     (let vn1 = series_var g1 / real (length g1);
          vn2 = series_var g2 / real (length g2);
          diff = series_mean g1 - series_mean g2;
          t2 = diff\<^sup>2 / (vn1 + vn2)
      in (Fin (diff / sqrt (vn1 + vn2)), Fin (1 - sqrt (t2 / (2 + t2)))))"

definition f_oneway_two_pairs :: "real list list \<Rightarrow> npfloat \<times> npfloat" where
  "f_oneway_two_pairs groups =
     (let grand = series_mean (concat groups);
          ssb = sum_list (map (\<lambda>g. real (length g) * (series_mean g - grand)\<^sup>2) groups);
          ssw = sum_list (map (\<lambda>g. sum_list (map (\<lambda>x. (x - series_mean g)\<^sup>2) g)) groups);
          dfb = real (length groups) - 1;
          dfw = real (length (concat groups)) - real (length groups);
          f = (ssb / dfb) / (ssw / dfw)
      in (Fin f, Fin (1 - sqrt (f / (2 + f)))))"

definition fast_bat_flat :: dataframe where
  "fast_bat_flat =
     [player ''FAST'' ''AUS'' 2003 185, player ''FAST'' ''AUS'' 2007 185,
      player ''FAST'' ''AUS'' 2011 185, player ''BAT'' ''IND'' 2003 175,
      player ''BAT'' ''IND'' 2007 175, player ''BAT'' ''IND'' 2011 175]"

definition fast_bat_spread :: dataframe where
  "fast_bat_spread =
     [player ''FAST'' ''AUS'' 2003 184, player ''FAST'' ''AUS'' 2007 185,
      player ''FAST'' ''AUS'' 2011 186, player ''BAT'' ''IND'' 2003 174,
      player ''BAT'' ''IND'' 2007 175, player ''BAT'' ''IND'' 2011 176]"

definition demo_mixed :: mixedlm_results where
  "demo_mixed =
     \<lparr>converged = True, mixed_nobs = 12, k_re = 1, llf = Fin (- 31.23456), aic = NaN, bic = NaN,
      fe_params = [(''Intercept'', Fin (- 1466.88593)), (''tournament_year'', Fin 0.82001)],
      bse_fe = [''Intercept'' \<mapsto> Fin 120.33337]\<rparr>"

definition demo_anova :: "(string \<times> anova_lm_row) list" where
  "demo_anova =
     [(''C(category)'', \<lparr>lm_sum_sq = Fin 310.12346, lm_df = Fin 3, lm_F = Fin 4.00016,
                          lm_PR = Fin 0.0123457\<rparr>),
      (''Residual'', \<lparr>lm_sum_sq = Fin 2068.00002, lm_df = Fin 80, lm_F = NaN, lm_PR = NaN\<rparr>)]"

text \<open>
  Rows of two countries for table 9, and fitters that return the library results above
  whatever the rows: the values are inputs of the rounding, not the fit of these rows.
\<close>

definition two_countries :: dataframe where
  "two_countries = twelve_bat @ two_regions"

definition demo_anova_lm :: anova_fitter where
  "demo_anova_lm data = Some demo_anova"

definition demo_mixedlm :: mixed_fitter where
  "demo_mixedlm data = Some demo_mixed"

definition no_mixedlm :: mixed_fitter where
  "no_mixedlm data = None"

definition no_height :: observation where
  "no_height = (player ''BAT'' ''IND'' 2003 0)\<lparr>height_cm := None\<rparr>"



definition demo_render :: "pyval \<Rightarrow> string" where
  "demo_render obj = ''?''"

definition demo_analyses :: analyses where
  "demo_analyses =
     \<lparr>table2_descriptive = (\<lambda>df. PyDict []),
      table3_unadjusted = (\<lambda>df. PyDict []),
      table4_adjusted = (\<lambda>df. PyDict []),
      table5_country = (\<lambda>df. PyDict []),
      table6_regional = (\<lambda>df. PyDict []),
      table7_breakpoints = (\<lambda>df. breakpoints_py (table7_breakpoint True least_squares f_cdf_2 df)),
      table8_two_way_anova = (\<lambda>df. PyDict []),
      table9_mixed_effects = (\<lambda>df. PyDict []),
      table10_sensitivity = (\<lambda>df. PyDict [])\<rparr>"

section \<open>Properties of the numbers\<close>

lemma py_round_grid: "py_round nd x * 10 ^ nd \<in> \<int>"
  by (simp add: py_round_def Let_def)

lemma decimals_np_round: "decimals nd (np_round nd v)"
  by (cases v) (simp_all add: py_round_grid)

lemma np_gt_irrefl: "\<not> np_gt a a"
  by (cases a) simp_all

lemma np_gt_not_nan: "np_gt a b \<Longrightarrow> a \<noteq> NaN \<and> b \<noteq> NaN"
  by (cases a; cases b) simp_all

lemma np_le_gt_trans: "\<not> np_gt a b \<Longrightarrow> np_gt c b \<Longrightarrow> a \<noteq> NaN \<Longrightarrow> np_gt c a"
  by (cases a; cases b; cases c) simp_all

lemma np_gt_asym: "np_gt a b \<Longrightarrow> \<not> np_gt b a"
  by (cases a; cases b) simp_all

lemma py_round_cases:
  "py_round nd x = of_int \<lfloor>x * 10 ^ nd\<rfloor> / 10 ^ nd \<and> x * 10 ^ nd - of_int \<lfloor>x * 10 ^ nd\<rfloor> \<le> 1 / 2
   \<or> py_round nd x = of_int (\<lfloor>x * 10 ^ nd\<rfloor> + 1) / 10 ^ nd \<and> 1 / 2 \<le> x * 10 ^ nd - of_int \<lfloor>x * 10 ^ nd\<rfloor>"
  by (auto simp: py_round_def Let_def)

lemma py_round_le_int:
  assumes "x \<le> of_int m / 10 ^ nd"
  shows "py_round nd x \<le> of_int m / 10 ^ nd"
proof -
  have pos: "(0::real) < 10 ^ nd" by simp
  from assms have y: "x * 10 ^ nd \<le> of_int m" by (simp add: pos_le_divide_eq)
  then have f: "\<lfloor>x * 10 ^ nd\<rfloor> \<le> m" by (simp add: floor_le_iff)
  from py_round_cases [of nd x] show ?thesis
  proof
    assume "py_round nd x = of_int \<lfloor>x * 10 ^ nd\<rfloor> / 10 ^ nd \<and> x * 10 ^ nd - of_int \<lfloor>x * 10 ^ nd\<rfloor> \<le> 1 / 2"
    with f show ?thesis by (simp add: divide_right_mono)
  next
    assume a: "py_round nd x = of_int (\<lfloor>x * 10 ^ nd\<rfloor> + 1) / 10 ^ nd \<and> 1 / 2 \<le> x * 10 ^ nd - of_int \<lfloor>x * 10 ^ nd\<rfloor>"
    then have "of_int \<lfloor>x * 10 ^ nd\<rfloor> < x * 10 ^ nd" by linarith
    with y have "of_int \<lfloor>x * 10 ^ nd\<rfloor> < (of_int m :: real)" by linarith
    then have "\<lfloor>x * 10 ^ nd\<rfloor> + 1 \<le> m" by linarith
    then have "(of_int (\<lfloor>x * 10 ^ nd\<rfloor> + 1) :: real) \<le> of_int m" by (simp only: of_int_le_iff)
    with a show ?thesis by (simp add: divide_right_mono)
  qed
qed

lemma py_round_le_one: "x \<le> 1 \<Longrightarrow> py_round nd x \<le> 1"
  using py_round_le_int [of x "10 ^ nd" nd] by simp

lemma py_round_close: "\<bar>py_round nd x - x\<bar> \<le> 1 / (2 * 10 ^ nd)"
proof -
  have pos: "(0::real) < 10 ^ nd" by simp
  define y where "y = x * 10 ^ nd"
  have x: "x = y / 10 ^ nd" by (simp add: y_def)
  have fl: "of_int \<lfloor>y\<rfloor> \<le> y" "y < of_int \<lfloor>y\<rfloor> + 1" by linarith+
  from py_round_cases [of nd x]
  have "\<bar>py_round nd x * 10 ^ nd - y\<bar> \<le> 1 / 2"
    unfolding y_def [symmetric] using fl by auto
  then have "\<bar>(py_round nd x - x) * 10 ^ nd\<bar> \<le> 1 / 2"
    by (simp add: x algebra_simps)
  then have "\<bar>py_round nd x - x\<bar> * 10 ^ nd \<le> 1 / 2"
    by (simp add: abs_mult)
  then show ?thesis using pos by (simp add: pos_le_divide_eq mult.commute)
qed

section \<open>Properties of safe\_ols\<close>

lemma formula_columns_year:
  "formula_columns ''height_cm ~ tournament_year'' = [''height_cm'', ''tournament_year'']"
  by (simp add: formula_columns_def replace_tilde_def strip_def is_space_def)

lemma complete_player:
  "complete_in [''height_cm'', ''tournament_year''] (player cat ctry yr h)"
  by (simp add: complete_in_def col_isna_def player_def)

lemma dropna_five_bat:
  "dropna (formula_columns ''height_cm ~ tournament_year'') five_bat = Inr five_bat"
  by (simp add: formula_columns_year dropna_def known_column_def five_bat_def complete_player)

lemma dropna_four_bat:
  "dropna (formula_columns ''height_cm ~ tournament_year'') four_bat = Inr four_bat"
  by (simp add: formula_columns_year dropna_def known_column_def four_bat_def complete_player)

lemma safe_ols_Some:
  assumes "safe_ols hs ols formula data = Some res"
  shows "\<exists>clean model. hs \<and> dropna (formula_columns formula) data = Inr clean
           \<and> 5 \<le> length clean \<and> ols formula clean = Some model
           \<and> res = summary formula model"
  using assms by (auto simp: safe_ols_def split: if_splits sum.splits option.splits)

lemma safe_ols_demo:
  "safe_ols True demo_ols ''height_cm ~ tournament_year'' five_bat
     = Some (summary ''height_cm ~ tournament_year'' demo_model)"
proof -
  have "\<not> length five_bat < 5" by (simp add: five_bat_def)
  then show ?thesis by (simp add: safe_ols_def dropna_five_bat demo_ols_def)
qed

text \<open>
  Claim C2, amended. With \<open>clean\<close> the rows left after dropping those with a missing
  value in a column named by the formula: under 5 rows \<open>safe_ols\<close> returns no model,
  whatever else holds; from 5 rows on it returns the rounded summary of the fit, provided
  statsmodels is installed and the fit raises no error. So 4 complete rows are rejected
  and 5 are fitted.
\<close>

theorem safe_ols_minimum_rows:
  assumes "dropna (formula_columns formula) data = Inr clean"
  shows "(length clean < 5 \<longrightarrow> safe_ols hs ols formula data = None) \<and>
         (5 \<le> length clean \<and> hs \<and> ols formula clean = Some model \<longrightarrow>
            safe_ols hs ols formula data = Some (summary formula model))"
  using assms by (simp add: safe_ols_def)

theorem safe_ols_minimum_rows_witness:
  "safe_ols True demo_ols ''height_cm ~ tournament_year'' four_bat = None \<and>
   safe_ols True demo_ols ''height_cm ~ tournament_year'' five_bat
     = Some (summary ''height_cm ~ tournament_year'' demo_model)"
proof -
  have l4: "length four_bat < 5" and l5: "5 \<le> length five_bat"
    by (simp_all add: four_bat_def five_bat_def)
  have fit: "demo_ols ''height_cm ~ tournament_year'' five_bat = Some demo_model"
    by (simp add: demo_ols_def)
  from safe_ols_minimum_rows [OF dropna_four_bat, of True demo_ols demo_model]
       safe_ols_minimum_rows [OF dropna_five_bat, of True demo_ols demo_model]
       l4 l5 fit
  show ?thesis by blast
qed

text \<open>
  As stated, C2 promises a model for every request with 5 complete rows. Without
  statsmodels (\<open>HAS_STATSMODELS = False\<close>) the first line of \<open>safe_ols\<close> returns
  \<open>None\<close> for the 5 complete rows of \<open>five_bat\<close>.
\<close>

theorem safe_ols_without_statsmodels_counterexample:
  "dropna (formula_columns ''height_cm ~ tournament_year'') five_bat = Inr five_bat \<and>
   length five_bat = 5 \<and>
   safe_ols False demo_ols ''height_cm ~ tournament_year'' five_bat = None"
  by (simp add: dropna_five_bat safe_ols_def) (simp add: five_bat_def)

section \<open>Properties of the breakpoint search\<close>

lemma try_candidate_alt:
  "try_candidate ols cdf subset_df b bp =
     (case candidate_f ols cdf subset_df bp of
        None \<Rightarrow> b
      | Some (F, p) \<Rightarrow> if np_gt F (fst (snd b)) then (Some bp, F, p) else b)"
  by (auto simp: try_candidate_def candidate_f_def valid_candidate_def Let_def split: option.splits)

lemma search_snoc:
  "search_breakpoint ols cdf subset_df (years @ [bp])
     = try_candidate ols cdf subset_df (search_breakpoint ols cdf subset_df years) bp"
  by (simp add: search_breakpoint_def)

lemma search_inv_step:
  assumes inv: "search_inv ols cdf subset_df years b"
    and reg: "\<forall>c \<in> set (years @ [bp]). \<forall>F p. candidate_f ols cdf subset_df c = Some (F, p) \<longrightarrow> np_gt F (Fin (- 1))"
  shows "search_inv ols cdf subset_df (years @ [bp]) (try_candidate ols cdf subset_df b bp)"
proof (cases "candidate_f ols cdf subset_df bp")
  case None
  with inv show ?thesis
    unfolding try_candidate_alt search_inv_def
    by (auto split: option.splits prod.splits) (metis append.assoc append_Cons)
next
  case (Some fp)
  obtain F p where fp: "fp = (F, p)" by (cases fp)
  from reg Some fp have regF: "np_gt F (Fin (- 1))" by simp
  obtain cur bf bpv where b: "b = (cur, bf, bpv)" by (cases b)
  show ?thesis
  proof (cases cur)
    case None
    with inv b have "bf = Fin (- 1)" and none: "\<forall>c \<in> set years. candidate_f ols cdf subset_df c = None"
      by (simp_all add: search_inv_def)
    then have ex': "\<exists>earlier later. years @ [bp] = earlier @ bp # later \<and>
              (\<forall>bp' \<in> set earlier. \<forall>F' p'. candidate_f ols cdf subset_df bp' = Some (F', p') \<longrightarrow> np_gt F F')"
      by (intro exI[of _ years] exI[of _ "[]"]) simp
    from none \<open>candidate_f ols cdf subset_df bp = Some fp\<close> fp
    have "\<forall>bp' \<in> set (years @ [bp]). \<forall>F' p'. candidate_f ols cdf subset_df bp' = Some (F', p') \<longrightarrow> \<not> np_gt F' F"
      by (auto simp: np_gt_irrefl)
    with ex' \<open>bf = Fin (- 1)\<close> \<open>candidate_f ols cdf subset_df bp = Some fp\<close> fp regF b None
    show ?thesis
      unfolding try_candidate_alt search_inv_def
      by simp
  next
    case (Some c)
    from inv b Some have cf: "candidate_f ols cdf subset_df c = Some (bf, bpv)"
      and mx: "\<forall>bp' \<in> set years. \<forall>F' p'. candidate_f ols cdf subset_df bp' = Some (F', p') \<longrightarrow> \<not> np_gt F' bf"
      and ex: "\<exists>earlier later. years = earlier @ c # later \<and>
              (\<forall>bp' \<in> set earlier. \<forall>F' p'. candidate_f ols cdf subset_df bp' = Some (F', p') \<longrightarrow> np_gt bf F')"
      by (simp_all add: search_inv_def)
    show ?thesis
    proof (cases "np_gt F bf")
      case True
      have earlier: "\<forall>bp' \<in> set years. \<forall>F' p'. candidate_f ols cdf subset_df bp' = Some (F', p') \<longrightarrow> np_gt F F'"
      proof (intro ballI allI impI)
        fix bp' F' p' assume m: "bp' \<in> set years" and c': "candidate_f ols cdf subset_df bp' = Some (F', p')"
        from mx m c' have "\<not> np_gt F' bf" by blast
        moreover from reg m c' have "F' \<noteq> NaN" using np_gt_not_nan by fastforce
        ultimately show "np_gt F F'" using True np_le_gt_trans by blast
      qed
      then have "\<forall>bp' \<in> set (years @ [bp]). \<forall>F' p'. candidate_f ols cdf subset_df bp' = Some (F', p') \<longrightarrow> \<not> np_gt F' F"
        using \<open>candidate_f ols cdf subset_df bp = Some fp\<close> fp
        by (auto simp: np_gt_irrefl dest: np_gt_asym)
      moreover from earlier
      have "\<exists>earlier later. years @ [bp] = earlier @ bp # later \<and>
              (\<forall>bp' \<in> set earlier. \<forall>F' p'. candidate_f ols cdf subset_df bp' = Some (F', p') \<longrightarrow> np_gt F F')"
        by (intro exI[of _ years] exI[of _ "[]"]) simp
      ultimately show ?thesis
        using True \<open>candidate_f ols cdf subset_df bp = Some fp\<close> fp b
        unfolding try_candidate_alt search_inv_def
        by simp
    next
      case False
      from ex obtain earlier later where yr: "years = earlier @ c # later"
        and e: "\<forall>bp' \<in> set earlier. \<forall>F' p'. candidate_f ols cdf subset_df bp' = Some (F', p') \<longrightarrow> np_gt bf F'"
        by blast
      have "years @ [bp] = earlier @ c # (later @ [bp])" using yr by simp
      with e have ex': "\<exists>earlier later. years @ [bp] = earlier @ c # later \<and>
              (\<forall>bp' \<in> set earlier. \<forall>F' p'. candidate_f ols cdf subset_df bp' = Some (F', p') \<longrightarrow> np_gt bf F')"
        by blast
      from mx False \<open>candidate_f ols cdf subset_df bp = Some fp\<close> fp
      have "\<forall>bp' \<in> set (years @ [bp]). \<forall>F' p'. candidate_f ols cdf subset_df bp' = Some (F', p') \<longrightarrow> \<not> np_gt F' bf"
        by auto
      with ex' cf False \<open>candidate_f ols cdf subset_df bp = Some fp\<close> fp b Some
      show ?thesis
        unfolding try_candidate_alt search_inv_def
        by simp
    qed
  qed
qed

lemma search_inv_holds:
  assumes "\<forall>c \<in> set years. \<forall>F p. candidate_f ols cdf subset_df c = Some (F, p) \<longrightarrow> np_gt F (Fin (- 1))"
  shows "search_inv ols cdf subset_df years (search_breakpoint ols cdf subset_df years)"
  using assms
proof (induction years rule: rev_induct)
  case Nil
  show ?case by (simp add: search_breakpoint_def best_init_def search_inv_def)
next
  case (snoc bp years)
  then have "search_inv ols cdf subset_df years (search_breakpoint ols cdf subset_df years)"
    by simp
  from search_inv_step [OF this snoc.prems] show ?case
    by (simp add: search_snoc)
qed

lemma search_no_candidate:
  assumes "\<forall>bp \<in> set years. candidate_f ols cdf subset_df bp = None"
  shows "search_breakpoint ols cdf subset_df years = best_init"
  using assms
  by (induction years rule: rev_induct) (simp_all add: search_breakpoint_def try_candidate_alt)

lemma candidate_f_invalid: "\<not> valid_candidate subset_df bp \<Longrightarrow> candidate_f ols cdf subset_df bp = None"
  by (simp add: candidate_f_def)

lemma candidate_f_valid: "candidate_f ols cdf subset_df bp = Some fp \<Longrightarrow> valid_candidate subset_df bp"
  by (simp add: candidate_f_def split: if_splits)

lemma slice_entry_no_valid:
  assumes "\<forall>bp \<in> set candidate_years. \<not> valid_candidate subset_df bp"
  shows "slice_entry ols cdf subset_df = None"
proof -
  from assms have "search_breakpoint ols cdf subset_df candidate_years = best_init"
    by (intro search_no_candidate) (simp add: candidate_f_invalid)
  then show ?thesis by (simp add: slice_entry_def best_init_def)
qed

lemma table7_fold:
  "foldl (table7_category ols cdf df) m cats c =
     (if c \<in> set cats \<and> \<not> length (table7_slice c df) < 10
         \<and> slice_entry ols cdf (table7_slice c df) \<noteq> None
      then slice_entry ols cdf (table7_slice c df) else m c)"
  by (induction cats arbitrary: m) (auto simp: table7_category_def Let_def split: option.splits)

lemma table3_fold:
  "foldl (table3_category hs ols df) m cats c =
     (if c \<in> set cats \<and> \<not> length (height_year (of_category c df)) < 5
      then Some (safe_ols hs ols ''height_cm ~ tournament_year'' (height_year (of_category c df)))
      else m c)"
  by (induction cats arbitrary: m) (auto simp: table3_category_def Let_def)

lemma table3_category_key:
  assumes "cat \<in> set CATEGORIES"
  shows "table3_unadjusted_regression hs ols df cat =
           (if length (height_year (of_category cat df)) < 5 then None
            else Some (safe_ols hs ols ''height_cm ~ tournament_year'' (height_year (of_category cat df))))"
proof -
  from assms have "cat \<noteq> ''ALL''" by (auto simp: CATEGORIES_def)
  with assms show ?thesis
    by (simp add: table3_unadjusted_regression_def Let_def table3_fold)
qed

lemma table7_no_valid:
  assumes "\<forall>bp \<in> set candidate_years. \<not> valid_candidate (table7_slice cat df) bp"
  shows "table7_breakpoint hs ols cdf df cat = None"
  using slice_entry_no_valid [OF assms]
  by (simp add: table7_breakpoint_def table7_fold del: foldl_Cons foldl_Nil)

text \<open>
  Claim C1, amended. No failure of a slice raises, and none leaves a record of the skip:
  for each category, table 3 has an entry exactly when the slice has at least 5 complete
  rows (the entry is what \<open>safe_ols\<close> returned, \<open>None\<close> included), and a slice under
  5 rows is printed and its key left out; in table 7 a slice for which no candidate year
  has 5 rows on both sides has no entry either.
\<close>

theorem skipped_slices_have_no_entry:
  "(\<forall>cat \<in> set CATEGORIES.
      table3_unadjusted_regression hs ols df cat =
        (if length (height_year (of_category cat df)) < 5 then None
         else Some (safe_ols hs ols ''height_cm ~ tournament_year''
                      (height_year (of_category cat df))))) \<and>
   (\<forall>cat. (\<forall>bp \<in> set candidate_years. \<not> valid_candidate (table7_slice cat df) bp)
      \<longrightarrow> table7_breakpoint hs ols cdf df cat = None)"
  using table3_category_key table7_no_valid by blast

lemma year_partition:
  assumes "\<forall>r \<in> set s. tournament_year r \<noteq> None"
  shows "length (filter (year_le bp) s) + length (filter (year_gt bp) s) = length s"
proof -
  have "filter (year_gt bp) s = filter (\<lambda>r. \<not> year_le bp r) s"
    using assms by (intro filter_cong) (auto simp: year_le_def year_gt_def)
  then show ?thesis by (simp add: sum_length_filter_compl)
qed

lemma table7_slice_years: "\<forall>r \<in> set (table7_slice cat df). tournament_year r \<noteq> None"
  by (auto simp: table7_slice_def height_year_def complete_in_def col_isna_def)

text \<open>
  Claim C4. The search scores exactly the candidates with at least 5 rows on each side
  (\<open>year \<le> bp\<close> and \<open>year > bp\<close>, which split a slice of table 7 in two). Where every
  score is a number above the initial \<open>best_f = -1\<close>, as an F statistic is, the search
  returns a scored candidate that none exceeds and that exceeds every scored candidate
  earlier in the list; with no scored candidate it returns no year. When no candidate
  has 5 rows on both sides the slice gets no entry.
\<close>

theorem breakpoint_selection:
  assumes "\<forall>bp \<in> set years. \<forall>F p. candidate_f ols cdf subset_df bp = Some (F, p)
             \<longrightarrow> np_gt F (Fin (- 1))"
  shows "(case search_breakpoint ols cdf subset_df years of
            (None, bf, bpv) \<Rightarrow> \<forall>bp \<in> set years. candidate_f ols cdf subset_df bp = None
          | (Some bp, bf, bpv) \<Rightarrow>
              valid_candidate subset_df bp \<and>
              candidate_f ols cdf subset_df bp = Some (bf, bpv) \<and>
              (\<forall>bp' \<in> set years. \<forall>F' p'. candidate_f ols cdf subset_df bp' = Some (F', p')
                  \<longrightarrow> \<not> np_gt F' bf) \<and>
              (\<exists>earlier later. years = earlier @ bp # later \<and>
                  (\<forall>bp' \<in> set earlier. \<forall>F' p'.
                      candidate_f ols cdf subset_df bp' = Some (F', p') \<longrightarrow> np_gt bf F'))) \<and>
         ((\<forall>bp \<in> set years. \<not> valid_candidate subset_df bp)
            \<longrightarrow> fst (search_breakpoint ols cdf subset_df years) = None) \<and>
         ((\<forall>bp \<in> set candidate_years. \<not> valid_candidate subset_df bp)
            \<longrightarrow> slice_entry ols cdf subset_df = None) \<and>
         (\<forall>bp. length (filter (year_le bp) (table7_slice cat df))
                 + length (filter (year_gt bp) (table7_slice cat df))
               = length (table7_slice cat df))"
proof -
  from search_inv_holds [OF assms]
  have "search_inv ols cdf subset_df years (search_breakpoint ols cdf subset_df years)" .
  then have 1: "(case search_breakpoint ols cdf subset_df years of
            (None, bf, bpv) \<Rightarrow> \<forall>bp \<in> set years. candidate_f ols cdf subset_df bp = None
          | (Some bp, bf, bpv) \<Rightarrow>
              valid_candidate subset_df bp \<and>
              candidate_f ols cdf subset_df bp = Some (bf, bpv) \<and>
              (\<forall>bp' \<in> set years. \<forall>F' p'. candidate_f ols cdf subset_df bp' = Some (F', p')
                  \<longrightarrow> \<not> np_gt F' bf) \<and>
              (\<exists>earlier later. years = earlier @ bp # later \<and>
                  (\<forall>bp' \<in> set earlier. \<forall>F' p'.
                      candidate_f ols cdf subset_df bp' = Some (F', p') \<longrightarrow> np_gt bf F')))"
  proof (cases "search_breakpoint ols cdf subset_df years")
    case (fields cur bf bpv)
    show ?thesis
    proof (cases cur)
      case None
      with fields \<open>search_inv ols cdf subset_df years (search_breakpoint ols cdf subset_df years)\<close>
      show ?thesis by (simp add: search_inv_def)
    next
      case (Some bp)
      with fields \<open>search_inv ols cdf subset_df years (search_breakpoint ols cdf subset_df years)\<close>
      have inv: "candidate_f ols cdf subset_df bp = Some (bf, bpv) \<and>
          (\<forall>bp' \<in> set years. \<forall>F' p'. candidate_f ols cdf subset_df bp' = Some (F', p')
              \<longrightarrow> \<not> np_gt F' bf) \<and>
          (\<exists>earlier later. years = earlier @ bp # later \<and>
              (\<forall>bp' \<in> set earlier. \<forall>F' p'. candidate_f ols cdf subset_df bp' = Some (F', p')
                  \<longrightarrow> np_gt bf F'))"
        by (simp add: search_inv_def)
      then have "valid_candidate subset_df bp" using candidate_f_valid by blast
      with inv fields Some show ?thesis by simp
    qed
  qed
  have 2: "(\<forall>bp \<in> set years. \<not> valid_candidate subset_df bp)
            \<longrightarrow> fst (search_breakpoint ols cdf subset_df years) = None"
    by (simp add: search_no_candidate candidate_f_invalid best_init_def)
  have 3: "(\<forall>bp \<in> set candidate_years. \<not> valid_candidate subset_df bp)
            \<longrightarrow> slice_entry ols cdf subset_df = None"
    using slice_entry_no_valid by blast
  have 4: "\<forall>bp. length (filter (year_le bp) (table7_slice cat df))
                 + length (filter (year_gt bp) (table7_slice cat df))
               = length (table7_slice cat df)"
    using year_partition [OF table7_slice_years] by blast
  from 1 2 3 4 show ?thesis by blast
qed

lemma chow_f_stat_finite:
  assumes "n \<noteq> 4" and "rss_restricted \<noteq> 0"
  shows "chow_f_stat rss_full rss_restricted 2 n =
           Fin (((rss_full - rss_restricted) / 2) / (rss_restricted / (of_int n - 4)))"
  using assms by (simp add: chow_f_stat_def np_div_def)

text \<open>
  Claim C3. When the three fits return, the slice does not have exactly 4 rows and the
  restricted residual sum of squares is not zero, the statistic of a candidate is
  \<open>F = ((RSS_full - RSS_restricted) / k) / (RSS_restricted / (n - 2k))\<close> with \<open>k = 2\<close>
  and its p-value is \<open>1 - cdf(F; 2, n - 4)\<close>, in table 7 and in figure 6 alike.
\<close>

theorem chow_statistic:
  assumes "ols ''height_cm ~ tournament_year'' subset_df = Some model_full"
      and "ols ''height_cm ~ tournament_year'' pre = Some model_pre"
      and "ols ''height_cm ~ tournament_year'' post = Some model_post"
      and "length subset_df \<noteq> 4"
      and "ssr model_pre + ssr model_post \<noteq> 0"
  shows "(let RSS_full = ssr model_full;
              RSS_restricted = ssr model_pre + ssr model_post;
              k = 2;
              n = length subset_df;
              F = Fin (((RSS_full - RSS_restricted) / real k)
                        / (RSS_restricted / (real n - 2 * real k)));
              p = one_minus (cdf F 2 (int n - 4))
          in chow_test ols cdf subset_df pre post = Some (F, p) \<and>
             fig6_f_stat ols subset_df pre post = Some F \<and>
             fig6_best_p cdf F subset_df = p)"
  using assms
  by (simp add: chow_test_def fig6_f_stat_def fig6_best_p_def Let_def chow_f_stat_def np_div_def)

section \<open>The search on the sample\<close>

lemma pre99: "filter (year_le 1999) twelve_bat = take 5 twelve_bat"
  by (simp add: twelve_bat_def year_le_def player_def)
lemma post99: "filter (year_gt 1999) twelve_bat = drop 5 twelve_bat"
  by (simp add: twelve_bat_def year_gt_def player_def)

lemma c99: "candidate_f least_squares f_cdf_2 twelve_bat 1999 = Some (Fin (1412392 / 121935),
    Fin (221061712695400850625 / 50920788786802031485921))"
  apply (simp add: candidate_f_def valid_candidate_def pre99 post99)
  apply (simp add: twelve_bat_def chow_test_def least_squares_def points_def player_def List.map_filter_simps Let_def
     chow_f_stat_def np_div_def f_cdf_2_def power_divide)
  done

lemma pre03: "filter (year_le 2003) twelve_bat = take 7 twelve_bat"
  by (simp add: twelve_bat_def year_le_def player_def)
lemma post03: "filter (year_gt 2003) twelve_bat = drop 7 twelve_bat"
  by (simp add: twelve_bat_def year_gt_def player_def)

lemma c03: "candidate_f least_squares f_cdf_2 twelve_bat 2003 = Some (Fin (127028284 / 53675787),
    Fin (8300680222339528779685992058161 / 53272090605277523303316447770896))"
  apply (simp add: candidate_f_def valid_candidate_def pre03 post03)
  apply (simp add: twelve_bat_def chow_test_def least_squares_def points_def player_def List.map_filter_simps Let_def
     chow_f_stat_def np_div_def f_cdf_2_def power_divide)
  done

lemma c_other: "bp \<in> {1996, 2007, 2010, 2012} \<Longrightarrow> candidate_f least_squares f_cdf_2 twelve_bat bp = None"
  by (auto simp: candidate_f_def valid_candidate_def twelve_bat_def year_le_def year_gt_def player_def)

lemma least_squares_Some: "least_squares f d = Some (the (least_squares f d))"
  by (simp add: least_squares_def Let_def)

lemma ssr_twelve: "ssr (the (least_squares f twelve_bat)) = 73082 / 2217"
  by (simp add: least_squares_def points_def twelve_bat_def player_def List.map_filter_simps Let_def)

lemma ssr_pre_1999: "ssr (the (least_squares f (take 5 twelve_bat))) = 2"
  by (simp add: least_squares_def points_def twelve_bat_def player_def List.map_filter_simps Let_def)

lemma ssr_post_1999: "ssr (the (least_squares f (drop 5 twelve_bat))) = 84 / 13"
  by (simp add: least_squares_def points_def twelve_bat_def player_def List.map_filter_simps Let_def)

theorem chow_statistic_witness:
  "chow_test least_squares f_cdf_2 twelve_bat (take 5 twelve_bat) (drop 5 twelve_bat)
     = Some (Fin (1412392 / 121935), Fin (221061712695400850625 / 50920788786802031485921)) \<and>
   fig6_f_stat least_squares twelve_bat (take 5 twelve_bat) (drop 5 twelve_bat)
     = Some (Fin (1412392 / 121935))"
proof -
  have n: "length twelve_bat \<noteq> 4" by (simp add: twelve_bat_def)
  have len: "length twelve_bat = 12" by (simp add: twelve_bat_def)
  have r: "ssr (the (least_squares ''height_cm ~ tournament_year'' (take 5 twelve_bat)))
            + ssr (the (least_squares ''height_cm ~ tournament_year'' (drop 5 twelve_bat))) \<noteq> 0"
    by (simp add: ssr_pre_1999 ssr_post_1999)
  from chow_statistic [of least_squares twelve_bat _ "take 5 twelve_bat" _ "drop 5 twelve_bat" _ f_cdf_2,
         OF least_squares_Some least_squares_Some least_squares_Some n r]
  show ?thesis
    by (simp add: Let_def ssr_twelve ssr_pre_1999 ssr_post_1999 len f_cdf_2_def power_divide)
qed

lemma invalid_1996: "\<not> valid_candidate twelve_bat 1996"
  by (simp add: valid_candidate_def twelve_bat_def year_le_def year_gt_def player_def)

lemma valid_1999: "valid_candidate twelve_bat 1999"
  by (simp add: valid_candidate_def pre99 post99) (simp add: twelve_bat_def)

lemma c_none:
  "candidate_f least_squares f_cdf_2 twelve_bat 1996 = None"
  "candidate_f least_squares f_cdf_2 twelve_bat 2007 = None"
  "candidate_f least_squares f_cdf_2 twelve_bat 2010 = None"
  "candidate_f least_squares f_cdf_2 twelve_bat 2012 = None"
  by (simp_all add: c_other)

lemma sample_regular:
  "\<forall>bp \<in> set candidate_years. \<forall>F p.
     candidate_f least_squares f_cdf_2 twelve_bat bp = Some (F, p) \<longrightarrow> np_gt F (Fin (- 1))"
  by (simp add: candidate_years_def c99 c03 c_none)


theorem breakpoint_selection_witness:
  "search_breakpoint least_squares f_cdf_2 twelve_bat candidate_years
     = (Some 1999, Fin (1412392 / 121935),
        Fin (221061712695400850625 / 50920788786802031485921)) \<and>
   valid_candidate twelve_bat 1999 \<and>
   candidate_f least_squares f_cdf_2 twelve_bat 2003
     = Some (Fin (127028284 / 53675787),
             Fin (8300680222339528779685992058161 / 53272090605277523303316447770896)) \<and>
   candidate_f least_squares f_cdf_2 twelve_bat 1996 = None \<and>
   \<not> valid_candidate twelve_bat 1996"
proof -
  let ?s = "search_breakpoint least_squares f_cdf_2 twelve_bat candidate_years"
  obtain cur bf bpv where s: "?s = (cur, bf, bpv)"
    by (cases ?s)
  have m99: "1999 \<in> set candidate_years" by (simp add: candidate_years_def)
  note sel = breakpoint_selection [OF sample_regular, of "''BAT''" twelve_bat]
  have "?s = (Some 1999, Fin (1412392 / 121935),
        Fin (221061712695400850625 / 50920788786802031485921))"
  proof (cases cur)
    case None
    from sel have "\<forall>bp \<in> set candidate_years. candidate_f least_squares f_cdf_2 twelve_bat bp = None"
      unfolding s None by simp
    with m99 have "candidate_f least_squares f_cdf_2 twelve_bat 1999 = None" by blast
    with c99 show ?thesis by simp
  next
    case (Some bp)
    from sel
    have c: "candidate_f least_squares f_cdf_2 twelve_bat bp = Some (bf, bpv)"
      and mx: "\<forall>bp' \<in> set candidate_years. \<forall>F' p'.
                 candidate_f least_squares f_cdf_2 twelve_bat bp' = Some (F', p') \<longrightarrow> \<not> np_gt F' bf"
      and ex: "\<exists>earlier later. candidate_years = earlier @ bp # later \<and>
                  (\<forall>bp' \<in> set earlier. \<forall>F' p'.
                      candidate_f least_squares f_cdf_2 twelve_bat bp' = Some (F', p') \<longrightarrow> np_gt bf F')"
      unfolding s Some by simp_all
    from ex obtain earlier later where "candidate_years = earlier @ bp # later" by blast
    then have "bp \<in> set candidate_years" by (metis in_set_conv_decomp)
    then have "bp = 1996 \<or> bp = 1999 \<or> bp = 2003 \<or> bp = 2007 \<or> bp = 2010 \<or> bp = 2012"
      by (simp add: candidate_years_def)
    with c c_none have "bp = 1999 \<or> bp = 2003" by auto
    moreover have "bp \<noteq> 2003"
    proof
      assume "bp = 2003"
      with c c03 have "bf = Fin (127028284 / 53675787)" by simp
      with mx m99 c99 have "\<not> np_gt (Fin (1412392 / 121935)) (Fin (127028284 / 53675787))"
        by blast
      then show False by simp
    qed
    ultimately have bp: "bp = 1999" by simp
    with c c99 have "bf = Fin (1412392 / 121935)"
      and "bpv = Fin (221061712695400850625 / 50920788786802031485921)" by simp_all
    with s Some bp show ?thesis by simp
  qed
  with valid_1999 c03 c_none(1) invalid_1996 show ?thesis by blast
qed

section \<open>Tables 3 and 7 on small slices\<close>

lemma category_player: "category (player cat ctry yr h) = Some cat"
  by (simp add: player_def)

lemma bat_four: "height_year (of_category ''BAT'' four_bat) = four_bat"
  by (simp add: height_year_def of_category_def four_bat_def complete_player category_player)

lemma bat_five: "height_year (of_category ''BAT'' five_bat) = five_bat"
  by (simp add: height_year_def of_category_def five_bat_def complete_player category_player)

lemma five_no_valid:
  "\<forall>bp \<in> set candidate_years. \<not> valid_candidate (table7_slice ''BAT'' five_bat) bp"
  by (simp add: table7_slice_def bat_five candidate_years_def valid_candidate_def)
     (simp add: five_bat_def year_le_def year_gt_def player_def)

theorem skipped_slices_have_no_entry_witness:
  "table3_unadjusted_regression True demo_ols four_bat ''BAT'' = None \<and>
   table3_unadjusted_regression True demo_ols five_bat ''BAT''
     = Some (Some (summary ''height_cm ~ tournament_year'' demo_model)) \<and>
   table7_breakpoint True demo_ols f_cdf_2 five_bat ''BAT'' = None"
proof -
  have m: "''BAT'' \<in> set CATEGORIES" by (simp add: CATEGORIES_def)
  have l4: "length four_bat < 5" and l5: "\<not> length five_bat < 5"
    by (simp_all add: four_bat_def five_bat_def)
  note t = skipped_slices_have_no_entry
  from t [of True demo_ols four_bat f_cdf_2] m
  have "table3_unadjusted_regression True demo_ols four_bat ''BAT'' =
        (if length (height_year (of_category ''BAT'' four_bat)) < 5 then None
         else Some (safe_ols True demo_ols ''height_cm ~ tournament_year''
                      (height_year (of_category ''BAT'' four_bat))))"
    by blast
  with l4 have 1: "table3_unadjusted_regression True demo_ols four_bat ''BAT'' = None"
    by (simp add: bat_four)
  from t [of True demo_ols five_bat f_cdf_2] m
  have "table3_unadjusted_regression True demo_ols five_bat ''BAT'' =
        (if length (height_year (of_category ''BAT'' five_bat)) < 5 then None
         else Some (safe_ols True demo_ols ''height_cm ~ tournament_year''
                      (height_year (of_category ''BAT'' five_bat))))"
    by blast
  with l5 have 2: "table3_unadjusted_regression True demo_ols five_bat ''BAT''
     = Some (Some (summary ''height_cm ~ tournament_year'' demo_model))"
    by (simp add: bat_five safe_ols_demo)
  from t [of True demo_ols five_bat f_cdf_2] five_no_valid
  have 3: "table7_breakpoint True demo_ols f_cdf_2 five_bat ''BAT'' = None"
    by blast
  from 1 2 3 show ?thesis by blast
qed

text \<open>
  As stated, C1 promises an entry that records the skip. The slice of BAT in
  \<open>four_bat\<close> has 4 rows, and the results of table 3 have no key for it.
\<close>

theorem skipped_slice_missing_key_counterexample:
  "length (height_year (of_category ''BAT'' four_bat)) = 4 \<and>
   ''BAT'' \<notin> dom (table3_unadjusted_regression True demo_ols four_bat)"
proof -
  have m: "''BAT'' \<in> set CATEGORIES" by (simp add: CATEGORIES_def)
  have l: "length four_bat = 4" by (simp add: four_bat_def)
  from table3_category_key [OF m, of True demo_ols four_bat] l
  show ?thesis by (simp add: bat_four domIff)
qed

section \<open>Properties of the pairwise comparisons\<close>

lemma bonferroni_Fin: "bonferroni (Fin p) c = Fin (min (p * of_int c) 1)"
  by (simp add: bonferroni_def py_min_def np_lt_def min_def)

lemma comparisons_pos:
  assumes "2 \<le> k" shows "1 \<le> k * (k - 1) div (2::int)"
proof -
  from assms have "2 * 1 \<le> k * (k - 1)" by (intro mult_mono) auto
  then show ?thesis by simp
qed

lemma pairwise_tests_member:
  assumes "(r1, r2) \<in> set (pairs valid)"
      and "ttest_ind (heights (of_region r1 sub)) (heights (of_region r2 sub)) = (t, p)"
  shows "\<lparr>pw_pair = r1 @ '' vs '' @ r2, pw_t = np_round 4 t,
          pw_p_adj = np_round 6 (bonferroni p (int (length valid) * (int (length valid) - 1) div 2))\<rparr>
         \<in> set (pairwise_tests ttest_ind sub valid)"
  using assms by (force simp: pairwise_tests_def Let_def)

lemma table6_pairwise:
  assumes "2 \<le> length (valid_regions_of (filter (complete_in [''height_cm'', ''region'']) df))"
  shows "pairwise_results (table6_regional_anova has_pingouin f_oneway ttest_ind describe df)
           = (if has_pingouin then None
              else Some (pairwise_tests ttest_ind (filter (complete_in [''height_cm'', ''region'']) df)
                     (valid_regions_of (filter (complete_in [''height_cm'', ''region'']) df))))"
  using assms
  by (simp add: table6_regional_anova_def valid_regions_of_def Let_def split: prod.splits)

text \<open>
  Claim C5, amended. With \<open>k \<ge> 2\<close> valid regions: when pingouin is installed table 6
  reports no pairwise entry (the Games-Howell table of pingouin is only printed);
  otherwise it reports one entry per pair of valid regions, from the two-sample t-test of
  their heights. For a raw p-value \<open>p\<close> between 0 and 1 the adjusted value is
  \<open>min(p * C, 1)\<close> with \<open>C = k (k - 1) / 2\<close>, which is at least \<open>p\<close> and at most 1; the
  entry holds that value rounded to 6 decimal places, which is at most 1 and within
  \<open>0.0000005\<close> of it.
\<close>

theorem pairwise_bonferroni:
  assumes "sub = filter (complete_in [''height_cm'', ''region'']) df"
      and "2 \<le> length (valid_regions_of sub)"
      and "(r1, r2) \<in> set (pairs (valid_regions_of sub))"
      and "ttest_ind (heights (of_region r1 sub)) (heights (of_region r2 sub)) = (t, Fin p)"
      and "0 \<le> p" and "p \<le> 1"
  shows "(let k = int (length (valid_regions_of sub));
              C = k * (k - 1) div 2;
              adj = min (p * of_int C) 1
          in pairwise_results (table6_regional_anova has_pingouin f_oneway ttest_ind describe df)
               = (if has_pingouin then None
                  else Some (pairwise_tests ttest_ind sub (valid_regions_of sub))) \<and>
             \<lparr>pw_pair = r1 @ '' vs '' @ r2, pw_t = np_round 4 t,
              pw_p_adj = Fin (py_round 6 adj)\<rparr>
               \<in> set (pairwise_tests ttest_ind sub (valid_regions_of sub)) \<and>
             p \<le> adj \<and> adj \<le> 1 \<and>
             py_round 6 adj \<le> 1 \<and> \<bar>py_round 6 adj - adj\<bar> \<le> 1 / 2000000)"
proof -
  define k where "k = int (length (valid_regions_of sub))"
  define C where "C = k * (k - 1) div 2"
  define adj where "adj = min (p * of_int C) 1"
  from assms(2) have "2 \<le> k" by (simp add: k_def)
  then have C1: "1 \<le> C" unfolding C_def by (rule comparisons_pos)
  then have "(1::real) \<le> of_int C" by simp
  with \<open>0 \<le> p\<close> have "p * 1 \<le> p * of_int C" by (intro mult_left_mono)
  with \<open>p \<le> 1\<close> have lo: "p \<le> adj" by (simp add: adj_def)
  have hi: "adj \<le> 1" by (simp add: adj_def)
  have tab: "pairwise_results (table6_regional_anova has_pingouin f_oneway ttest_ind describe df)
               = (if has_pingouin then None
                  else Some (pairwise_tests ttest_ind sub (valid_regions_of sub)))"
    unfolding assms(1) using assms(2) [unfolded assms(1)] by (rule table6_pairwise)
  from pairwise_tests_member [of r1 r2 "valid_regions_of sub" ttest_ind sub t "Fin p"] assms(3,4)
  have mem: "\<lparr>pw_pair = r1 @ '' vs '' @ r2, pw_t = np_round 4 t, pw_p_adj = Fin (py_round 6 adj)\<rparr>
               \<in> set (pairwise_tests ttest_ind sub (valid_regions_of sub))"
    by (simp add: bonferroni_Fin adj_def C_def k_def)
  have close: "\<bar>py_round 6 adj - adj\<bar> \<le> 1 / 2000000"
    using py_round_close [of 6 adj] by simp
  have r1: "py_round 6 adj \<le> 1" using hi by (rule py_round_le_one)
  show ?thesis
    unfolding Let_def
    unfolding k_def [symmetric]
    unfolding C_def [symmetric]
    unfolding adj_def [symmetric]
    using tab mem lo hi r1 close by blast
qed

lemma two_regions_complete:
  "filter (complete_in [''height_cm'', ''region'']) two_regions = two_regions"
  by (simp add: two_regions_def complete_in_def col_isna_def player_def)

lemma two_regions_valid: "valid_regions_of two_regions = [''Asia'', ''Oceania'']"
  by (simp add: valid_regions_of_def two_regions_def of_region_def player_def List.map_filter_simps)

lemma heights_asia: "heights (of_region ''Asia'' two_regions) = [170, 176]"
  by (simp add: heights_def two_regions_def of_region_def player_def List.map_filter_simps)

lemma heights_oceania: "heights (of_region ''Oceania'' two_regions) = [178, 184]"
  by (simp add: heights_def two_regions_def of_region_def player_def List.map_filter_simps)

lemma far_regions_complete:
  "filter (complete_in [''height_cm'', ''region'']) far_regions = far_regions"
  by (simp add: far_regions_def complete_in_def col_isna_def player_def)

lemma far_regions_valid: "valid_regions_of far_regions = [''Asia'', ''Oceania'']"
  by (simp add: valid_regions_of_def far_regions_def of_region_def player_def List.map_filter_simps)

lemma far_heights_asia: "heights (of_region ''Asia'' far_regions) = [160, 180]"
  by (simp add: heights_def far_regions_def of_region_def player_def List.map_filter_simps)

lemma far_heights_oceania: "heights (of_region ''Oceania'' far_regions) = [181, 201]"
  by (simp add: heights_def far_regions_def of_region_def player_def List.map_filter_simps)

lemma sqrt_ratio: "0 \<le> a \<Longrightarrow> x = a\<^sup>2 \<Longrightarrow> sqrt x = a"
  by simp

lemma welch_two_regions: "snd (welch_two_pairs [170, 176] [178, 184]) = Fin (1 / 5)"
proof -
  have m: "series_mean [170, 176] = 173" "series_mean [178, 184] = 181"
    by (simp_all add: series_mean_def)
  have v: "series_var [170, 176] = 18" "series_var [178, 184] = 18"
    by (simp_all add: series_var_def m power2_eq_square)
  have q: "sqrt (16 / 25) = 4 / (5::real)"
    by (rule sqrt_ratio) (simp_all add: power2_eq_square)
  show ?thesis
    by (simp add: welch_two_pairs_def Let_def m v q)
qed

lemma welch_far_regions: "snd (welch_two_pairs [160, 180] [181, 201]) = Fin (8 / 29)"
proof -
  have m: "series_mean [160, 180] = 170" "series_mean [181, 201] = 191"
    by (simp_all add: series_mean_def)
  have v: "series_var [160, 180] = 200" "series_var [181, 201] = 200"
    by (simp_all add: series_var_def m power2_eq_square)
  have q: "sqrt (441 / 841) = 21 / (29::real)"
    by (rule sqrt_ratio) (simp_all add: power2_eq_square)
  show ?thesis
    by (simp add: welch_two_pairs_def Let_def m v q)
qed

lemma pairwise_one_pair:
  "pairwise_tests tt sub [r1, r2] =
     [\<lparr>pw_pair = r1 @ '' vs '' @ r2,
       pw_t = np_round 4 (fst (tt (heights (of_region r1 sub)) (heights (of_region r2 sub)))),
       pw_p_adj = np_round 6
         (bonferroni (snd (tt (heights (of_region r1 sub)) (heights (of_region r2 sub)))) 1)\<rparr>]"
  by (simp add: pairwise_tests_def Let_def split: prod.splits)

lemma p_adj_two_regions:
  "map pw_p_adj (pairwise_tests welch_two_pairs two_regions [''Asia'', ''Oceania'']) = [Fin (1 / 5)]"
  by (simp add: pairwise_one_pair heights_asia heights_oceania welch_two_regions bonferroni_Fin
        py_round_def Let_def)

lemma p_adj_far_regions:
  "map pw_p_adj (pairwise_tests welch_two_pairs far_regions [''Asia'', ''Oceania''])
     = [Fin (275862 / 1000000)]"
  by (simp add: pairwise_one_pair far_heights_asia far_heights_oceania welch_far_regions
        bonferroni_Fin py_round_def Let_def)

theorem pairwise_bonferroni_witness:
  "valid_regions_of two_regions = [''Asia'', ''Oceania''] \<and>
   snd (welch_two_pairs (heights (of_region ''Asia'' two_regions))
          (heights (of_region ''Oceania'' two_regions))) = Fin (1 / 5) \<and>
   map_option (map pw_pair)
     (pairwise_results (table6_regional_anova False f_oneway_two_pairs welch_two_pairs (\<lambda>df. ())
        two_regions)) = Some [''Asia vs Oceania''] \<and>
   map_option (map pw_p_adj)
     (pairwise_results (table6_regional_anova False f_oneway_two_pairs welch_two_pairs (\<lambda>df. ())
        two_regions)) = Some [Fin (1 / 5)] \<and>
   pairwise_results (table6_regional_anova True f_oneway_two_pairs welch_two_pairs (\<lambda>df. ())
        two_regions) = None \<and>
   (1 / 5 :: real) \<le> min (1 / 5 * 1) 1 \<and> min (1 / 5 * 1) 1 \<le> (1 :: real) \<and>
   py_round 6 (min (1 / 5 * 1) 1) = 1 / 5"
proof -
  have sub: "two_regions = filter (complete_in [''height_cm'', ''region'']) two_regions"
    by (simp add: two_regions_complete)
  have k: "2 \<le> length (valid_regions_of two_regions)"
    by (simp add: two_regions_valid)
  have m: "(''Asia'', ''Oceania'') \<in> set (pairs (valid_regions_of two_regions))"
    by (simp add: two_regions_valid)
  have t: "welch_two_pairs (heights (of_region ''Asia'' two_regions))
             (heights (of_region ''Oceania'' two_regions))
           = (fst (welch_two_pairs [170, 176] [178, 184]), Fin (1 / 5))"
    by (simp add: heights_asia heights_oceania welch_two_regions [symmetric])
  have r: "py_round 6 (1 / 5) = 1 / 5" by (simp add: py_round_def Let_def)
  note inst = pairwise_bonferroni [of two_regions two_regions "''Asia''" "''Oceania''"
         welch_two_pairs "fst (welch_two_pairs [170, 176] [178, 184])" "1 / 5" _
         f_oneway_two_pairs "\<lambda>df. ()", OF sub k m t]
  from inst [of False]
  have off: "pairwise_results (table6_regional_anova False f_oneway_two_pairs welch_two_pairs
                (\<lambda>df. ()) two_regions)
             = Some (pairwise_tests welch_two_pairs two_regions [''Asia'', ''Oceania''])"
    by (simp add: Let_def two_regions_valid)
  from inst [of True]
  have on: "pairwise_results (table6_regional_anova True f_oneway_two_pairs welch_two_pairs
                (\<lambda>df. ()) two_regions) = None"
    by (simp add: Let_def)
  have pair: "map pw_pair (pairwise_tests welch_two_pairs two_regions [''Asia'', ''Oceania''])
                = [''Asia vs Oceania'']"
    by (simp add: pairwise_one_pair)
  show ?thesis
    by (simp add: off on pair p_adj_two_regions two_regions_valid heights_asia heights_oceania
          welch_two_regions r)
qed

text \<open>
  As stated, C5 has every pair of valid regions compared by a t-test, and the reported
  value equal to \<open>min(p * C, 1)\<close> and never below the raw \<open>p\<close>. The rows \<open>far_regions\<close>
  have two valid regions (\<open>C = 1\<close>). With pingouin installed table 6 runs no t-test on
  them and reports no pairwise entry. Without pingouin the raw p-value of the pair is
  \<open>8 / 29 = 0.27586206...\<close>, the adjusted value is the same, and the entry reports
  \<open>0.275862\<close>, which is below the raw p-value.
\<close>

theorem reported_p_adj_below_raw_counterexample:
  "valid_regions_of (filter (complete_in [''height_cm'', ''region'']) far_regions)
     = [''Asia'', ''Oceania''] \<and>
   pairwise_results (table6_regional_anova True f_oneway_two_pairs welch_two_pairs (\<lambda>df. ())
        far_regions) = None \<and>
   snd (welch_two_pairs (heights (of_region ''Asia'' far_regions))
          (heights (of_region ''Oceania'' far_regions))) = Fin (8 / 29) \<and>
   bonferroni (Fin (8 / 29)) (2 * (2 - 1) div 2) = Fin (8 / 29) \<and>
   map_option (map pw_p_adj)
     (pairwise_results (table6_regional_anova False f_oneway_two_pairs welch_two_pairs (\<lambda>df. ())
        far_regions)) = Some [Fin 0.275862] \<and>
   np_lt (Fin 0.275862) (Fin (8 / 29))"
proof -
  have k: "2 \<le> length (valid_regions_of (filter (complete_in [''height_cm'', ''region'']) far_regions))"
    by (simp add: far_regions_complete far_regions_valid)
  note tab = table6_pairwise [of far_regions _ f_oneway_two_pairs welch_two_pairs "\<lambda>df. ()", OF k]
  show ?thesis
    by (simp add: tab far_regions_complete far_regions_valid far_heights_asia far_heights_oceania
          welch_far_regions p_adj_far_regions bonferroni_Fin np_lt_def)
qed

section \<open>Properties of the effect size of FAST against BAT\<close>

lemma pooled_sd_nonneg: "0 \<le> pooled_sd fast_std bat_std"
  by (simp add: pooled_sd_def)

lemma np_div_zero: "np_div a 0 \<in> {PInf, NInf, NaN}"
  by (simp add: np_div_def)

lemma table10_fast_vs_bat_Some:
  assumes "3 \<le> length (heights_of ''FAST'' df)" and "3 \<le> length (heights_of ''BAT'' df)"
  shows "\<exists>e. table10_fast_vs_bat mean std ttest_ind df = Some e \<and>
             es_cohens_d e =
               np_round 4 (cohens_d (mean (heights_of ''FAST'' df) - mean (heights_of ''BAT'' df))
                  (pooled_sd (std (heights_of ''FAST'' df)) (std (heights_of ''BAT'' df))))"
  using assms by (simp add: table10_fast_vs_bat_def Let_def split: prod.splits)

text \<open>
  Claim C10. When FAST and BAT each have at least 3 heights, the entry \<open>fast_vs_bat\<close>
  is written and its \<open>cohens_d\<close> is the effect size rounded to 4 places. With a pooled
  standard deviation of zero the effect size is 0 and is reported as 0, where the
  division itself would have given \<open>inf\<close> or \<open>nan\<close>; otherwise it is the difference of
  the means divided by the pooled standard deviation. The means and the standard
  deviations are those pandas returns.
\<close>

theorem fast_vs_bat_effect_size:
  assumes "3 \<le> length (heights_of ''FAST'' df)" and "3 \<le> length (heights_of ''BAT'' df)"
  shows "(let fast = heights_of ''FAST'' df;
              bat = heights_of ''BAT'' df;
              diff = mean fast - mean bat;
              pooled = pooled_sd (std fast) (std bat)
          in \<exists>e. table10_fast_vs_bat mean std ttest_ind df = Some e \<and>
                 es_cohens_d e = np_round 4 (cohens_d diff pooled) \<and>
                 (pooled = 0 \<longrightarrow>
                    cohens_d diff pooled = Fin 0 \<and> es_cohens_d e = Fin 0 \<and>
                    np_div diff pooled \<in> {PInf, NInf, NaN}) \<and>
                 (pooled \<noteq> 0 \<longrightarrow>
                    cohens_d diff pooled = Fin (diff / pooled) \<and>
                    es_cohens_d e = Fin (py_round 4 (diff / pooled))))"
proof -
  define diff where "diff = mean (heights_of ''FAST'' df) - mean (heights_of ''BAT'' df)"
  define pooled where "pooled = pooled_sd (std (heights_of ''FAST'' df)) (std (heights_of ''BAT'' df))"
  from table10_fast_vs_bat_Some [OF assms, of mean std ttest_ind]
  obtain e where e: "table10_fast_vs_bat mean std ttest_ind df = Some e"
    and d: "es_cohens_d e = np_round 4 (cohens_d diff pooled)"
    unfolding diff_def pooled_def by blast
  have z: "py_round 4 0 = 0" by (simp add: py_round_def)
  have nonneg: "0 \<le> pooled" unfolding pooled_def by (rule pooled_sd_nonneg)
  have zero: "pooled = 0 \<longrightarrow>
                cohens_d diff pooled = Fin 0 \<and> es_cohens_d e = Fin 0 \<and>
                np_div diff pooled \<in> {PInf, NInf, NaN}"
    using np_div_zero [of diff] by (simp add: d cohens_d_def z)
  have pos: "pooled \<noteq> 0 \<longrightarrow>
               cohens_d diff pooled = Fin (diff / pooled) \<and>
               es_cohens_d e = Fin (py_round 4 (diff / pooled))"
    using nonneg by (simp add: d cohens_d_def np_div_def)
  show ?thesis
    unfolding Let_def
    unfolding diff_def [symmetric]
    unfolding pooled_def [symmetric]
    using e d zero pos by blast
qed

lemma flat_heights:
  "heights_of ''FAST'' fast_bat_flat = [185, 185, 185]"
  "heights_of ''BAT'' fast_bat_flat = [175, 175, 175]"
  by (simp_all add: heights_of_def of_category_def fast_bat_flat_def player_def List.map_filter_simps)

lemma spread_heights:
  "heights_of ''FAST'' fast_bat_spread = [184, 185, 186]"
  "heights_of ''BAT'' fast_bat_spread = [174, 175, 176]"
  by (simp_all add: heights_of_def of_category_def fast_bat_spread_def player_def List.map_filter_simps)

lemma flat_stats:
  "series_mean [185, 185, 185] = 185" "series_mean [175, 175, 175] = 175"
  "series_std [185, 185, 185] = 0" "series_std [175, 175, 175] = 0"
  by (simp_all add: series_std_def series_var_def series_mean_def)

lemma spread_stats:
  "series_mean [184, 185, 186] = 185" "series_mean [174, 175, 176] = 175"
  "series_std [184, 185, 186] = 1" "series_std [174, 175, 176] = 1"
  by (simp_all add: series_std_def series_var_def series_mean_def)

theorem fast_vs_bat_effect_size_witness:
  "series_std (heights_of ''FAST'' fast_bat_flat) = 0 \<and>
   series_std (heights_of ''BAT'' fast_bat_flat) = 0 \<and>
   pooled_sd 0 0 = 0 \<and>
   series_mean (heights_of ''FAST'' fast_bat_flat) - series_mean (heights_of ''BAT'' fast_bat_flat) = 10 \<and>
   np_div 10 0 = PInf \<and>
   cohens_d 10 0 = Fin 0 \<and>
   (\<forall>ttest_ind. map_option es_cohens_d
        (table10_fast_vs_bat series_mean series_std ttest_ind fast_bat_flat) = Some (Fin 0)) \<and>
   series_std (heights_of ''FAST'' fast_bat_spread) = 1 \<and>
   series_std (heights_of ''BAT'' fast_bat_spread) = 1 \<and>
   pooled_sd 1 1 = 1 \<and>
   cohens_d 10 1 = Fin 10 \<and>
   (\<forall>ttest_ind. map_option es_cohens_d
        (table10_fast_vs_bat series_mean series_std ttest_ind fast_bat_spread) = Some (Fin 10))"
proof -
  have f: "3 \<le> length (heights_of ''FAST'' fast_bat_flat)" "3 \<le> length (heights_of ''BAT'' fast_bat_flat)"
    by (simp_all add: flat_heights)
  have s: "3 \<le> length (heights_of ''FAST'' fast_bat_spread)" "3 \<le> length (heights_of ''BAT'' fast_bat_spread)"
    by (simp_all add: spread_heights)
  have p: "pooled_sd 0 0 = 0" "pooled_sd 1 1 = 1" by (simp_all add: pooled_sd_def)
  have r: "py_round 4 10 = 10" by (simp add: py_round_def)
  have c: "np_div 10 0 = PInf" "cohens_d 10 0 = Fin 0" "cohens_d 10 1 = Fin 10"
    by (simp_all add: np_div_def cohens_d_def)
  have 1: "map_option es_cohens_d
        (table10_fast_vs_bat series_mean series_std tt fast_bat_flat) = Some (Fin 0)" for tt
    using fast_vs_bat_effect_size [OF f, of series_mean series_std tt]
    by (auto simp: Let_def flat_heights flat_stats p)
  have 2: "map_option es_cohens_d
        (table10_fast_vs_bat series_mean series_std tt fast_bat_spread) = Some (Fin 10)" for tt
    using fast_vs_bat_effect_size [OF s, of series_mean series_std tt]
    by (auto simp: Let_def spread_heights spread_stats p r)
  from 1 2 p c show ?thesis
    by (simp add: flat_heights spread_heights flat_stats spread_stats)
qed

section \<open>Properties of the reported values\<close>

lemma safe_ols_rounded:
  assumes "safe_ols hs ols formula data = Some res"
  shows "\<exists>clean model.
           dropna (formula_columns formula) data = Inr clean \<and> ols formula clean = Some model \<and>
           coefficients res =
             map (\<lambda>(param, v).
                    (param, \<lparr>estimate = np_round 4 v,
                             std_err = np_round 4 (bse model param),
                             t_value = np_round 4 (tvalues model param),
                             p_value = np_round 6 (pvalues model param),
                             ci_lower = np_round 4 (fst (conf_int model param)),
                             ci_upper = np_round 4 (snd (conf_int model param))\<rparr>))
                 (params model) \<and>
           res_f_pvalue res =
             (if isnan (f_pvalue model) then None else Some (np_round 6 (f_pvalue model)))"
proof -
  from safe_ols_Some [OF assms] obtain clean model where
    "dropna (formula_columns formula) data = Inr clean" "ols formula clean = Some model"
    "res = summary formula model"
    by blast
  then show ?thesis
    by (intro exI [of _ clean] exI [of _ model]) (simp add: summary_def coefficient_of_def)
qed

lemma table9_model1_rounded:
  assumes "model1 (table9_mixed_effects_fn hs mixedlm1 mixedlm2 df) = Some m"
  shows "\<exists>rows fit.
           mixedlm1 rows = Some fit \<and>
           fixed_effects m =
             map (\<lambda>(param, v).
                    (param, \<lparr>fe_estimate = np_round 4 v,
                             fe_std_err = map_option (np_round 4) (bse_fe fit param)\<rparr>))
                 (fe_params fit)"
proof -
  have c: "(case x of Some se \<Rightarrow> Some (np_round 4 se) | None \<Rightarrow> None) = map_option (np_round 4) x"
    for x by (cases x) simp_all
  from assms show ?thesis
    by (auto simp: table9_mixed_effects_fn_def table9_model1_def Let_def c
             split: if_splits option.splits) blast+
qed

lemma table8_rounded:
  assumes "table8_two_way_anova_fn hs anova_lm df = Some entries"
  shows "\<exists>anova_table.
           anova_lm (filter (complete_in [''height_cm'', ''category'', ''era'']) df)
             = Some anova_table \<and>
           entries =
             map (\<lambda>(k, v).
                    (k, \<lparr>row_sum_sq = (if isnan (lm_sum_sq v) then None
                                        else Some (np_round 4 (lm_sum_sq v))),
                         row_df = np_round 1 (lm_df v),
                         row_F = (if isnan (lm_F v) then None else Some (np_round 4 (lm_F v))),
                         row_PR = (if isnan (lm_PR v) then None
                                    else Some (np_round 6 (lm_PR v)))\<rparr>))
                 anova_table"
proof -
  from assms obtain anova_table where
    a: "anova_lm (filter (complete_in [''height_cm'', ''category'', ''era'']) df) = Some anova_table"
    and e: "entries = table8_anova_table anova_table"
    by (auto simp: table8_two_way_anova_fn_def Let_def split: if_splits option.splits)
  have "table8_anova_table anova_table =
          map (\<lambda>(k, v).
                 (k, \<lparr>row_sum_sq = (if isnan (lm_sum_sq v) then None
                                     else Some (np_round 4 (lm_sum_sq v))),
                      row_df = np_round 1 (lm_df v),
                      row_F = (if isnan (lm_F v) then None else Some (np_round 4 (lm_F v))),
                      row_PR = (if isnan (lm_PR v) then None
                                 else Some (np_round 6 (lm_PR v)))\<rparr>))
              anova_table"
    unfolding table8_anova_table_def by (rule map_cong) auto
  with a e show ?thesis by blast
qed

lemma slice_entry_rounded:
  assumes "slice_entry ols cdf subset_df = Some e"
  shows "\<exists>F p. search_breakpoint ols cdf subset_df candidate_years = (Some (best_breakpoint e), F, p)
           \<and> bp_f_statistic e = np_round 4 F \<and> bp_p_value e = np_round 6 p"
  using assms
  by (auto simp: slice_entry_def Let_def split: prod.splits option.splits if_splits)

lemma table6_overall_rounded:
  assumes "overall (table6_regional_anova hp f_oneway ttest_ind describe df) = Some a"
  shows "\<exists>groups F p. f_oneway groups = (F, p) \<and>
           anova_f_statistic a = np_round 4 F \<and> anova_p_value a = np_round 6 p"
  using assms
  by (auto simp: table6_regional_anova_def Let_def split: prod.splits if_splits) blast+

lemma pairwise_tests_rounded:
  assumes "pw \<in> set (pairwise_tests ttest_ind sub valid)"
  shows "\<exists>r1 r2 t p. (r1, r2) \<in> set (pairs valid) \<and>
           ttest_ind (heights (of_region r1 sub)) (heights (of_region r2 sub)) = (t, p) \<and>
           pw_t pw = np_round 4 t \<and>
           pw_p_adj pw =
             np_round 6 (bonferroni p (int (length valid) * (int (length valid) - 1) div 2))"
  using assms
  by (auto simp: pairwise_tests_def Let_def split: prod.splits) blast+

lemma format_comparison_rounded:
  assumes "table10_format_comparison mean std ttest_ind df = Some fc"
  shows "\<exists>g1 g2 t p. ttest_ind g1 g2 = (t, p) \<and>
           fc_t_statistic fc = np_round 4 t \<and> fc_p_value fc = np_round 6 p"
  using assms
  by (auto simp: table10_format_comparison_def Let_def split: prod.splits if_splits) blast+

lemma fast_vs_bat_rounded:
  assumes "table10_fast_vs_bat mean std ttest_ind df = Some es"
  shows "\<exists>t p. ttest_ind (heights_of ''FAST'' df) (heights_of ''BAT'' df) = (t, p) \<and>
           es_t_statistic es = np_round 4 t \<and> es_p_value es = np_round 6 p"
  using assms
  by (auto simp: table10_fast_vs_bat_def Let_def split: prod.splits if_splits)

text \<open>
  Claim C6. Every value the document holds for a fitted model is the library's value
  rounded: 4 places for each coefficient's estimate, standard error, t-value and
  confidence bounds (the results of \<open>safe_ols\<close> in tables 3, 4, 5, 7 and 10, the fixed
  effects of table 9), 6 places for each p-value (of a coefficient, of a model's F-test,
  of the Chow test of table 7, of the rows of the analysis of variance of table 8, and
  of the tests of tables 6 and 10). Rounding gives a whole multiple of \<open>10 ^ -nd\<close> that
  is within half a unit of the last place of the value.
\<close>

theorem reported_values_rounded:
  "(safe_ols hs ols formula data = Some res \<longrightarrow>
      (\<exists>clean model.
          dropna (formula_columns formula) data = Inr clean \<and> ols formula clean = Some model \<and>
          coefficients res =
            map (\<lambda>(param, v).
                   (param, \<lparr>estimate = np_round 4 v,
                            std_err = np_round 4 (bse model param),
                            t_value = np_round 4 (tvalues model param),
                            p_value = np_round 6 (pvalues model param),
                            ci_lower = np_round 4 (fst (conf_int model param)),
                            ci_upper = np_round 4 (snd (conf_int model param))\<rparr>))
                (params model) \<and>
          res_f_pvalue res =
            (if isnan (f_pvalue model) then None else Some (np_round 6 (f_pvalue model))))) \<and>
   (model1 (table9_mixed_effects_fn hs_mixed mixedlm_one mixedlm_two df_mixed) = Some m \<longrightarrow>
      (\<exists>rows fit.
          mixedlm_one rows = Some fit \<and>
          fixed_effects m =
            map (\<lambda>(param, v).
                   (param, \<lparr>fe_estimate = np_round 4 v,
                            fe_std_err = map_option (np_round 4) (bse_fe fit param)\<rparr>))
                (fe_params fit))) \<and>
   (table8_two_way_anova_fn hs_anova anova_lm df_anova = Some entries \<longrightarrow>
      (\<exists>anova_table.
          anova_lm (filter (complete_in [''height_cm'', ''category'', ''era'']) df_anova)
            = Some anova_table \<and>
          entries =
            map (\<lambda>(k, v).
                   (k, \<lparr>row_sum_sq = (if isnan (lm_sum_sq v) then None
                                       else Some (np_round 4 (lm_sum_sq v))),
                        row_df = np_round 1 (lm_df v),
                        row_F = (if isnan (lm_F v) then None else Some (np_round 4 (lm_F v))),
                        row_PR = (if isnan (lm_PR v) then None
                                   else Some (np_round 6 (lm_PR v)))\<rparr>))
                anova_table)) \<and>
   (slice_entry ols_chow cdf subset_df = Some e \<longrightarrow>
      (\<exists>F p. search_breakpoint ols_chow cdf subset_df candidate_years = (Some (best_breakpoint e), F, p)
          \<and> bp_f_statistic e = np_round 4 F \<and> bp_p_value e = np_round 6 p)) \<and>
   (overall (table6_regional_anova hp f_oneway ttest_regions describe df_regions) = Some a \<longrightarrow>
      (\<exists>groups F p. f_oneway groups = (F, p) \<and>
          anova_f_statistic a = np_round 4 F \<and> anova_p_value a = np_round 6 p)) \<and>
   (pw \<in> set (pairwise_tests ttest_regions sub valid) \<longrightarrow>
      (\<exists>r1 r2 t p. (r1, r2) \<in> set (pairs valid) \<and>
          ttest_regions (heights (of_region r1 sub)) (heights (of_region r2 sub)) = (t, p) \<and>
          pw_t pw = np_round 4 t \<and>
          pw_p_adj pw =
            np_round 6 (bonferroni p (int (length valid) * (int (length valid) - 1) div 2)))) \<and>
   (table10_format_comparison mean std ttest_sens df_sens = Some fc \<longrightarrow>
      (\<exists>g1 g2 t p. ttest_sens g1 g2 = (t, p) \<and>
          fc_t_statistic fc = np_round 4 t \<and> fc_p_value fc = np_round 6 p)) \<and>
   (table10_fast_vs_bat mean std ttest_sens df_sens = Some es \<longrightarrow>
      (\<exists>t p. ttest_sens (heights_of ''FAST'' df_sens) (heights_of ''BAT'' df_sens) = (t, p) \<and>
          es_t_statistic es = np_round 4 t \<and> es_p_value es = np_round 6 p)) \<and>
   decimals nd (np_round nd v) \<and>
   \<bar>py_round nd x - x\<bar> \<le> 1 / (2 * 10 ^ nd)"
  by (intro conjI impI safe_ols_rounded table9_model1_rounded table8_rounded slice_entry_rounded
        table6_overall_rounded pairwise_tests_rounded format_comparison_rounded
        fast_vs_bat_rounded decimals_np_round py_round_close)

lemma two_countries_rows:
  "filter (complete_in [''height_cm'', ''tournament_year'', ''country'']) two_countries
     = two_countries"
  "filter (complete_in [''height_cm'', ''category'', ''era'']) two_countries = two_countries"
  by (simp_all add: two_countries_def twelve_bat_def two_regions_def complete_in_def col_isna_def
        player_def)

lemma two_countries_count: "\<not> length two_countries < 10" "nunique_country two_countries = 2"
  by (simp_all add: nunique_country_def two_countries_def twelve_bat_def two_regions_def
        player_def List.map_filter_simps)

lemma demo_table9:
  "model1 (table9_mixed_effects_fn True demo_mixedlm no_mixedlm two_countries)
     = Some (table9_model1 demo_mixed)"
  by (simp add: table9_mixed_effects_fn_def two_countries_rows two_countries_count Let_def
        demo_mixedlm_def)

lemma demo_table8:
  "table8_two_way_anova_fn True demo_anova_lm two_countries
     = Some (table8_anova_table demo_anova)"
  by (simp add: table8_two_way_anova_fn_def two_countries_rows two_countries_count Let_def
        demo_anova_lm_def)

theorem reported_values_rounded_witness:
  "map_option coefficients (safe_ols True demo_ols ''height_cm ~ tournament_year'' five_bat) =
     Some [(''Intercept'', \<lparr>estimate = Fin (- 891.2346), std_err = Fin 0.0002, t_value = PInf,
              p_value = Fin 0, ci_lower = Fin 0.1, ci_upper = Fin 0.9\<rparr>),
           (''tournament_year'', \<lparr>estimate = Fin 0.5334, std_err = Fin 0.0002, t_value = PInf,
              p_value = Fin 0, ci_lower = Fin 0.1, ci_upper = Fin 0.9\<rparr>)] \<and>
   map_option res_f_pvalue (safe_ols True demo_ols ''height_cm ~ tournament_year'' five_bat)
     = Some (Some (Fin 0.000123)) \<and>
   map_option fixed_effects
       (model1 (table9_mixed_effects_fn True demo_mixedlm no_mixedlm two_countries)) =
     Some [(''Intercept'', \<lparr>fe_estimate = Fin (- 1466.8859), fe_std_err = Some (Fin 120.3334)\<rparr>),
           (''tournament_year'', \<lparr>fe_estimate = Fin 0.82, fe_std_err = None\<rparr>)] \<and>
   table8_two_way_anova_fn True demo_anova_lm two_countries =
     Some [(''C(category)'', \<lparr>row_sum_sq = Some (Fin 310.1235), row_df = Fin 3,
              row_F = Some (Fin 4.0002), row_PR = Some (Fin 0.012346)\<rparr>),
           (''Residual'', \<lparr>row_sum_sq = Some (Fin 2068), row_df = Fin 80,
              row_F = None, row_PR = None\<rparr>)] \<and>
   decimals 4 (np_round 4 (Fin 0.53337)) \<and>
   \<bar>py_round 4 0.53337 - 0.53337\<bar> \<le> 1 / (2 * 10 ^ 4)"
proof -
  note inst = reported_values_rounded [where hs = True and ols = demo_ols
      and formula = "''height_cm ~ tournament_year''" and data = five_bat
      and res = "summary ''height_cm ~ tournament_year'' demo_model"
      and hs_mixed = True and mixedlm_one = demo_mixedlm and mixedlm_two = no_mixedlm
      and df_mixed = two_countries and m = "table9_model1 demo_mixed"
      and hs_anova = True and anova_lm = demo_anova_lm and df_anova = two_countries
      and entries = "table8_anova_table demo_anova"
      and nd = 4 and v = "Fin 0.53337" and x = "0.53337"]
  from inst [THEN conjunct1, rule_format, OF safe_ols_demo]
  have c: "coefficients (summary ''height_cm ~ tournament_year'' demo_model) =
     [(''Intercept'', \<lparr>estimate = Fin (- 891.2346), std_err = Fin 0.0002, t_value = PInf,
         p_value = Fin 0, ci_lower = Fin 0.1, ci_upper = Fin 0.9\<rparr>),
      (''tournament_year'', \<lparr>estimate = Fin 0.5334, std_err = Fin 0.0002, t_value = PInf,
         p_value = Fin 0, ci_lower = Fin 0.1, ci_upper = Fin 0.9\<rparr>)]"
    and f: "res_f_pvalue (summary ''height_cm ~ tournament_year'' demo_model) = Some (Fin 0.000123)"
    by (auto simp: demo_ols_def demo_model_def isnan_def py_round_def Let_def)
  from inst [THEN conjunct2, THEN conjunct1, rule_format, OF demo_table9]
  have m: "fixed_effects (table9_model1 demo_mixed) =
     [(''Intercept'', \<lparr>fe_estimate = Fin (- 1466.8859), fe_std_err = Some (Fin 120.3334)\<rparr>),
      (''tournament_year'', \<lparr>fe_estimate = Fin 0.82, fe_std_err = None\<rparr>)]"
    by (auto simp: demo_mixedlm_def demo_mixed_def py_round_def Let_def)
  from inst [THEN conjunct2, THEN conjunct2, THEN conjunct1, rule_format, OF demo_table8]
  have a: "table8_anova_table demo_anova =
     [(''C(category)'', \<lparr>row_sum_sq = Some (Fin 310.1235), row_df = Fin 3,
         row_F = Some (Fin 4.0002), row_PR = Some (Fin 0.012346)\<rparr>),
      (''Residual'', \<lparr>row_sum_sq = Some (Fin 2068), row_df = Fin 80,
         row_F = None, row_PR = None\<rparr>)]"
    by (auto simp: demo_anova_lm_def demo_anova_def isnan_def py_round_def Let_def)
  note rest = inst [THEN conjunct2, THEN conjunct2, THEN conjunct2, THEN conjunct2, THEN conjunct2, THEN conjunct2, THEN conjunct2, THEN conjunct2]
  from rest [THEN conjunct1] have g: "decimals 4 (np_round 4 (Fin 0.53337))" .
  from rest [THEN conjunct2] have h: "\<bar>py_round 4 0.53337 - 0.53337\<bar> \<le> 1 / (2 * 10 ^ 4)" .
  show ?thesis
    unfolding safe_ols_demo demo_table9 demo_table8 option.map c f m a
    using g h by blast
qed

section \<open>Properties of main\<close>

text \<open>
  Claim C7. When the file is missing, or no row of it has a height, \<open>main\<close> exits with
  status 1 having called no table function and written no document.
\<close>

theorem main_aborts_on_malformed_input:
  assumes "csv = None \<or> (\<exists>df. csv = Some df \<and> filter (\<lambda>r. height_cm r \<noteq> None) df = [])"
  shows "main depth render a csv = \<lparr>called = [], exit_status = Some 1, saved = None\<rparr>"
  using assms by (auto simp: main_def Let_def)

theorem main_aborts_on_malformed_input_witness:
  "main 1000 demo_render demo_analyses None = \<lparr>called = [], exit_status = Some 1, saved = None\<rparr> \<and>
   main 1000 demo_render demo_analyses (Some [no_height, no_height])
     = \<lparr>called = [], exit_status = Some 1, saved = None\<rparr> \<and>
   main 1000 demo_render demo_analyses (Some [])
     = \<lparr>called = [], exit_status = Some 1, saved = None\<rparr> \<and>
   called (main 1000 demo_render demo_analyses (Some (no_height # twelve_bat))) \<noteq> []"
proof -
  have e: "filter (\<lambda>r. height_cm r \<noteq> None) [no_height, no_height] = []"
    by (simp add: no_height_def)
  have ok: "filter (\<lambda>r. \<exists>y. height_cm r = Some y) twelve_bat = twelve_bat"
    by (simp add: twelve_bat_def player_def)
  have len: "twelve_bat \<noteq> []" by (simp add: twelve_bat_def)
  have 4: "called (main 1000 demo_render demo_analyses (Some (no_height # twelve_bat))) \<noteq> []"
    using len by (simp add: main_def ok Let_def no_height_def)
  from main_aborts_on_malformed_input [of None 1000 demo_render demo_analyses]
       main_aborts_on_malformed_input [of "Some [no_height, no_height]" 1000 demo_render demo_analyses]
       main_aborts_on_malformed_input [of "Some []" 1000 demo_render demo_analyses]
       e 4
  show ?thesis by simp
qed

section \<open>Properties of the frames\<close>











section \<open>The serialization of the sample document\<close>

lemma encode_wrapper:
  "0 < depth \<Longrightarrow> encode depth hook (NpBool b)
     = (case hook (NpBool b) of Inl e \<Rightarrow> Inl e | Inr v \<Rightarrow> encode (depth - 1) hook v)"
  by (cases depth) (auto split: sum.splits)

lemma sample_search:
  "search_breakpoint least_squares f_cdf_2 twelve_bat candidate_years
     = (Some 1999, Fin (1412392 / 121935),
        Fin (221061712695400850625 / 50920788786802031485921))"
  by (simp add: search_breakpoint_def candidate_years_def best_init_def try_candidate_alt
        c99 c03 c_none)

lemma safe_ols_least_squares:
  assumes "dropna (formula_columns f) X = Inr X" and "\<not> length X < 5"
  shows "safe_ols True least_squares f X = Some (summary f (the (least_squares f X)))"
  using assms by (simp add: safe_ols_def least_squares_def Let_def)

lemma sample_pre_slope:
  "slope_of (safe_ols True least_squares ''height_cm ~ tournament_year'' (take 5 twelve_bat))
     = Some (Some (Fin 0))"
proof -
  have d: "dropna (formula_columns ''height_cm ~ tournament_year'') (take 5 twelve_bat)
             = Inr (take 5 twelve_bat)"
    by (simp add: formula_columns_year dropna_def known_column_def twelve_bat_def complete_player)
  have l: "\<not> length (take 5 twelve_bat) < 5" by (simp add: twelve_bat_def)
  have m: "map_of (coefficients (summary ''height_cm ~ tournament_year''
              (the (least_squares ''height_cm ~ tournament_year'' (take 5 twelve_bat)))))
             ''tournament_year'' = Some \<lparr>estimate = Fin 0, std_err = NaN, t_value = NaN,
                p_value = NaN, ci_lower = NaN, ci_upper = NaN\<rparr>"
    by (simp add: summary_def coefficient_of_def least_squares_def points_def twelve_bat_def
          player_def List.map_filter_simps Let_def py_round_def)
  show ?thesis
    by (simp only: safe_ols_least_squares [OF d l] slope_of_def m option.case option.map) simp
qed

lemma sample_post_slope:
  "slope_of (safe_ols True least_squares ''height_cm ~ tournament_year'' (drop 5 twelve_bat))
     = Some (Some (Fin 0.9423))"
proof -
  have d: "dropna (formula_columns ''height_cm ~ tournament_year'') (drop 5 twelve_bat)
             = Inr (drop 5 twelve_bat)"
    by (simp add: formula_columns_year dropna_def known_column_def twelve_bat_def complete_player)
  have l: "\<not> length (drop 5 twelve_bat) < 5" by (simp add: twelve_bat_def)
  have m: "map_of (coefficients (summary ''height_cm ~ tournament_year''
              (the (least_squares ''height_cm ~ tournament_year'' (drop 5 twelve_bat)))))
             ''tournament_year'' = Some \<lparr>estimate = Fin 0.9423, std_err = NaN, t_value = NaN,
                p_value = NaN, ci_lower = NaN, ci_upper = NaN\<rparr>"
    by (simp add: summary_def coefficient_of_def least_squares_def points_def twelve_bat_def
          player_def List.map_filter_simps Let_def py_round_def)
  show ?thesis
    by (simp only: safe_ols_least_squares [OF d l] slope_of_def m option.case option.map) simp
qed


lemma sample_entry:
  "slice_entry least_squares f_cdf_2 twelve_bat =
     Some \<lparr>best_breakpoint = 1999, bp_f_statistic = Fin 11.5832, bp_p_value = Fin 0.004341,
            significant = True, pre_slope = Some (Some (Fin 0)),
            post_slope = Some (Some (Fin 0.9423))\<rparr>"
  by (simp add: slice_entry_def sample_search pre99 post99 sample_pre_slope sample_post_slope
        np_lt_def py_round_def Let_def)

lemma sample_slices:
  "table7_slice ''BAT'' twelve_bat = twelve_bat"
  "table7_slice ''ALL'' twelve_bat = twelve_bat"
  "table7_slice ''FAST'' twelve_bat = []"
  by (simp_all add: table7_slice_def height_year_def of_category_def twelve_bat_def
        complete_player category_player)

lemma sample_table7:
  "table7_breakpoint True least_squares f_cdf_2 twelve_bat =
     [''BAT'' \<mapsto> the (slice_entry least_squares f_cdf_2 twelve_bat),
      ''ALL'' \<mapsto> the (slice_entry least_squares f_cdf_2 twelve_bat)]"
proof -
  have l: "\<not> length twelve_bat < 10" by (simp add: twelve_bat_def)
  show ?thesis
    using l
    by (simp add: table7_breakpoint_def table7_category_def sample_slices sample_entry Let_def)
qed

text \<open>
  Claim C9, against the code. The document of table 7 for the sample holds
  \<open>significant\<close> as a numpy boolean. \<open>json.dump(..., cls=NumpyEncoder, default=str)\<close>
  gives the encoder \<open>str\<close> as its hook, in place of \<open>NumpyEncoder.default\<close>: the
  document read back has the text \<open>'True'\<close> where the boolean was. With the hook of
  \<open>NumpyEncoder\<close> alone it would read back as the boolean.
\<close>

theorem roundtrip_turns_numpy_bool_into_text:
  "breakpoints_py (table7_breakpoint True least_squares f_cdf_2 twelve_bat) =
     PyDict [(''BAT'', PyDict [(''best_breakpoint'', PyInt 1999),
                               (''f_statistic'', PyFloat (Fin 11.5832)),
                               (''p_value'', PyFloat (Fin 0.004341)),
                               (''significant'', NpBool True),
                               (''pre_slope'', PyFloat (Fin 0)),
                               (''post_slope'', PyFloat (Fin 0.9423))]),
             (''ALL'', PyDict [(''best_breakpoint'', PyInt 1999),
                               (''f_statistic'', PyFloat (Fin 11.5832)),
                               (''p_value'', PyFloat (Fin 0.004341)),
                               (''significant'', NpBool True),
                               (''pre_slope'', PyFloat (Fin 0)),
                               (''post_slope'', PyFloat (Fin 0.9423))])] \<and>
   roundtrip 1000 demo_render
       (breakpoints_py (table7_breakpoint True least_squares f_cdf_2 twelve_bat)) =
     Inr (PyDict [(''BAT'', PyDict [(''best_breakpoint'', PyInt 1999),
                               (''f_statistic'', PyFloat (Fin 11.5832)),
                               (''p_value'', PyFloat (Fin 0.004341)),
                               (''significant'', PyStr ''True''),
                               (''pre_slope'', PyFloat (Fin 0)),
                               (''post_slope'', PyFloat (Fin 0.9423))]),
             (''ALL'', PyDict [(''best_breakpoint'', PyInt 1999),
                               (''f_statistic'', PyFloat (Fin 11.5832)),
                               (''p_value'', PyFloat (Fin 0.004341)),
                               (''significant'', PyStr ''True''),
                               (''pre_slope'', PyFloat (Fin 0)),
                               (''post_slope'', PyFloat (Fin 0.9423))])]) \<and>
   map_sum id decode (encode 1000 (encoder_hook NumpyEncoder_default None)
       (breakpoints_py (table7_breakpoint True least_squares f_cdf_2 twelve_bat))) =
     Inr (PyDict [(''BAT'', PyDict [(''best_breakpoint'', PyInt 1999),
                               (''f_statistic'', PyFloat (Fin 11.5832)),
                               (''p_value'', PyFloat (Fin 0.004341)),
                               (''significant'', PyBool True),
                               (''pre_slope'', PyFloat (Fin 0)),
                               (''post_slope'', PyFloat (Fin 0.9423))]),
             (''ALL'', PyDict [(''best_breakpoint'', PyInt 1999),
                               (''f_statistic'', PyFloat (Fin 11.5832)),
                               (''p_value'', PyFloat (Fin 0.004341)),
                               (''significant'', PyBool True),
                               (''pre_slope'', PyFloat (Fin 0)),
                               (''post_slope'', PyFloat (Fin 0.9423))])])"
  by (simp add: sample_table7 sample_entry breakpoints_py_def entry_py_def slope_items_def
        List.map_filter_simps roundtrip_def json_dump_def encoder_hook_def encode_wrapper
        py_str_def NumpyEncoder_default_def)

end
